theory Spec2Isabelle
  imports Main "HOL-Library.Word"
begin

unbundle bit_operations_syntax

section \<open>sh7372 power management (arch/arm/mach-shmobile/pm-sh7372.c)\<close>

text \<open>
  The file drives memory-mapped registers and calls into the kernel around it. Both are
  outside the program, so the embedding threads a \<open>world\<close> through every function:
  the chronological list of everything the code did to its surroundings (register reads
  with the value that came back, register writes, delays, debug messages, calls of
  external functions) and a counter of the answers it has consumed so far. What the
  surroundings answer is a parameter, the \<open>env\<close>: the value the hardware returns to
  the \<open>n\<close>-th request when that request is a read of a given address, and the value
  an external function returns when it is the \<open>n\<close>-th request. Quantifying over
  \<open>env\<close> quantifies over every behaviour of the hardware and of the collaborators
  that the code can observe.
\<close>

subsection \<open>Machine types and register addresses\<close>

type_synonym u32 = "32 word"    \<comment> \<open>\<open>unsigned int\<close>, and the value of a 32-bit register\<close>
type_synonym c_int = "32 word"  \<comment> \<open>\<open>int\<close>; \<open>- x\<close> is two's complement\<close>
type_synonym addr = "32 word"   \<comment> \<open>a bus address\<close>

definition SMFRAM :: addr where "SMFRAM = 0xe6a70000"
definition SYSTBCR :: addr where "SYSTBCR = 0xe6150024"
definition SBAR :: addr where "SBAR = 0xe6180020"
definition APARMBAREA :: addr where "APARMBAREA = 0xe6f10020"

definition SPDCR :: addr where "SPDCR = 0xe6180008"
definition SWUCR :: addr where "SWUCR = 0xe6180014"
definition PSTR :: addr where "PSTR = 0xe6180080"

definition PSTR_RETRIES :: nat where "PSTR_RETRIES = 100"
definition PSTR_DELAY_US :: nat where "PSTR_DELAY_US = 10"

definition EIO :: c_int where "EIO = 5"

subsection \<open>Domains and devices\<close>

text \<open>
  \<open>struct sh7372_pm_domain\<close>: the name \<open>genpd.name\<close>, the bit position and
  the two flags. The pointers \<open>gov\<close>, \<open>suspend\<close> and \<open>resume\<close> are read by
  none of the functions below and are left out. All domains of the file have
  \<open>bit_shift\<close> below 32; beyond that \<open>1 << bit_shift\<close> is undefined in C, and
  \<open>domain_mask\<close> below is 0.
\<close>

record sh7372_pm_domain =
  genpd_name :: string
  bit_shift :: nat
  no_debug :: bool
  stay_on :: bool

text \<open>
  \<open>struct device\<close> with the two hooks of \<open>dev_gpd_data(dev)->ops\<close> that the
  adapter reads. A function pointer is an opaque number, \<open>None\<close> is \<open>NULL\<close>.
\<close>

type_synonym fn_ptr = nat

record device =
  dev_name :: string
  ops_stop :: "fn_ptr option"
  ops_start :: "fn_ptr option"

subsection \<open>Events, the world and its environment\<close>

text \<open>The three \<open>pr_debug\<close> format strings of the file, with their arguments.\<close>

datatype dbg =
    Power_off string u32 u32    \<comment> \<open>\<open>"%s: Power off, 0x%08x -> PSTR = 0x%08x"\<close>\<close>
  | Power_on string u32 u32     \<comment> \<open>\<open>"%s: Power on, 0x%08x -> PSTR = 0x%08x"\<close>\<close>
  | Domain_up u32 u32           \<comment> \<open>\<open>"sh7372 power domain up 0x%08x -> PSTR = 0x%08x"\<close>\<close>

text \<open>External functions that return an \<open>int\<close>.\<close>

datatype extern =
    Hook fn_ptr          \<comment> \<open>a call through \<open>ops.stop\<close> or \<open>ops.start\<close>\<close>
  | Pm_clk_suspend
  | Pm_clk_resume
  | Pm_genpd_poweron

datatype event =
    Readl addr u32                       \<comment> \<open>\<open>__raw_readl(addr)\<close> and the value read\<close>
  | Writel u32 addr                      \<comment> \<open>\<open>__raw_writel(value, addr)\<close>\<close>
  | Udelay nat
  | Cpu_relax
  | Pr_debug dbg
  | Call extern string c_int             \<comment> \<open>callee, name of its argument, value returned\<close>
  | Genpd_queue_power_off_work string
  | Sh7372_cpu_suspend
  | Cpu_init
  | Flush_tlb_all
  | Set_cr u32

record world =
  clock :: nat
  trace :: "event list"

text \<open>
  \<open>pr_debug\<close> is a macro that is not in the file: it prints, and evaluates its
  arguments, only when debugging is compiled in or switched on. \<open>pr_debug_on\<close> is
  that switch. \<open>virt_to_phys\<close> and \<open>phys_to_virt\<close> stand for the macros
  \<open>__pa\<close> and \<open>__va\<close>, \<open>sh7372_cpu_resume\<close> for the address of the
  assembly entry point of that name.
\<close>

record env =
  readl_val :: "nat \<Rightarrow> addr \<Rightarrow> u32"
  call_ret :: "nat \<Rightarrow> extern \<Rightarrow> string \<Rightarrow> c_int"
  pr_debug_on :: bool
  virt_to_phys :: "addr \<Rightarrow> addr"
  phys_to_virt :: "addr \<Rightarrow> addr"
  sh7372_cpu_resume :: addr

definition emit :: "event \<Rightarrow> world \<Rightarrow> world" where
  "emit ev w = w\<lparr>trace := trace w @ [ev]\<rparr>"

definition raw_readl :: "env \<Rightarrow> addr \<Rightarrow> world \<Rightarrow> u32 \<times> world" where
  "raw_readl e a w =
     (let v = readl_val e (clock w) a
      in (v, w\<lparr>clock := Suc (clock w), trace := trace w @ [Readl a v]\<rparr>))"

definition raw_writel :: "u32 \<Rightarrow> addr \<Rightarrow> world \<Rightarrow> world" where
  "raw_writel v a w = emit (Writel v a) w"

definition udelay :: "nat \<Rightarrow> world \<Rightarrow> world" where
  "udelay us w = emit (Udelay us) w"

definition cpu_relax :: "world \<Rightarrow> world" where
  "cpu_relax w = emit Cpu_relax w"

definition call_extern :: "env \<Rightarrow> extern \<Rightarrow> string \<Rightarrow> world \<Rightarrow> c_int \<times> world" where
  "call_extern e f arg w =
     (let r = call_ret e (clock w) f arg
      in (r, w\<lparr>clock := Suc (clock w), trace := trace w @ [Call f arg r]\<rparr>))"

text \<open>
  \<open>pr_debug(fmt, args)\<close>: the arguments are a computation on the world (they read
  PSTR), run only when the message is printed.
\<close>

definition pr_debug :: "env \<Rightarrow> (world \<Rightarrow> dbg \<times> world) \<Rightarrow> world \<Rightarrow> world" where
  "pr_debug e args w =
     (if pr_debug_on e then (let (m, w1) = args w in emit (Pr_debug m) w1) else w)"

text \<open>What a call added to the trace.\<close>

definition new_events :: "world \<Rightarrow> world \<Rightarrow> event list" where
  "new_events w w' = drop (length (trace w)) (trace w')"

subsection \<open>Power transition: \<open>pd_power_down\<close> and \<open>pd_power_up\<close>\<close>

definition domain_mask :: "sh7372_pm_domain \<Rightarrow> u32" where
  "domain_mask pd = push_bit (bit_shift pd) 1"

text \<open>
  The \<open>for\<close> loop of \<open>pd_power_down\<close>; the third argument is \<open>retry_count\<close>.
\<close>

fun pd_power_down_loop :: "env \<Rightarrow> u32 \<Rightarrow> nat \<Rightarrow> world \<Rightarrow> world" where
  "pd_power_down_loop e msk 0 w = w"
| "pd_power_down_loop e msk (Suc n) w =
     (let (v, w1) = raw_readl e SPDCR w
      in if v AND msk = 0 then w1
         else pd_power_down_loop e msk n (cpu_relax w1))"

definition pd_power_down :: "env \<Rightarrow> sh7372_pm_domain \<Rightarrow> world \<Rightarrow> c_int \<times> world" where
  "pd_power_down e pd w =
     (let msk = domain_mask pd;
          (p, w1) = raw_readl e PSTR w;
          w2 = (if p AND msk \<noteq> 0
                then pd_power_down_loop e msk PSTR_RETRIES (raw_writel msk SPDCR w1)
                else w1);
          w3 = (if \<not> no_debug pd
                then pr_debug e
                       (\<lambda>w. let (p', w') = raw_readl e PSTR w
                            in (Power_off (genpd_name pd) msk p', w')) w2
                else w2)
      in (0, w3))"

text \<open>
  The \<open>for\<close> loop of \<open>pd_power_up\<close>. The flag returned is \<open>True\<close> when the
  loop left through \<open>goto out\<close>, \<open>False\<close> when \<open>retry_count\<close> reached 0.
\<close>

fun pd_power_up_loop :: "env \<Rightarrow> u32 \<Rightarrow> nat \<Rightarrow> world \<Rightarrow> bool \<times> world" where
  "pd_power_up_loop e msk 0 w = (False, w)"
| "pd_power_up_loop e msk (Suc n) w =
     (let (v, w1) = raw_readl e SWUCR w
      in if v AND msk = 0 then (True, w1)
         else pd_power_up_loop e msk n
                (if Suc n > PSTR_RETRIES then udelay PSTR_DELAY_US w1 else cpu_relax w1))"

text \<open>The label \<open>out:\<close> of \<open>pd_power_up\<close>.\<close>

definition pd_power_up_out :: "env \<Rightarrow> u32 \<Rightarrow> c_int \<Rightarrow> world \<Rightarrow> c_int \<times> world" where
  "pd_power_up_out e msk ret w =
     (ret, pr_debug e
             (\<lambda>w. let (p', w') = raw_readl e PSTR w in (Domain_up msk p', w')) w)"

definition pd_power_up :: "env \<Rightarrow> sh7372_pm_domain \<Rightarrow> world \<Rightarrow> c_int \<times> world" where
  "pd_power_up e pd w =
     (let msk = domain_mask pd;
          (p, w1) = raw_readl e PSTR w
      in if p AND msk \<noteq> 0 then pd_power_up_out e msk 0 w1
         else
           (let w2 = raw_writel msk SWUCR w1;
                (left, w3) = pd_power_up_loop e msk (2 * PSTR_RETRIES) w2
            in if left then pd_power_up_out e msk 0 w3
               else
                 (let (v, w4) = raw_readl e SWUCR w3;
                      ret = (if v AND msk \<noteq> 0 then - EIO else 0);
                      w5 = (if \<not> no_debug pd
                            then pr_debug e
                                   (\<lambda>w. let (p', w') = raw_readl e PSTR w
                                        in (Power_on (genpd_name pd) msk p', w')) w4
                            else w4)
                  in pd_power_up_out e msk ret w5)))"

subsection \<open>The domains of the file\<close>

definition sh7372_a4lc :: sh7372_pm_domain where
  "sh7372_a4lc = \<lparr>genpd_name = ''A4LC'', bit_shift = 1, no_debug = False, stay_on = False\<rparr>"

definition sh7372_a4mp :: sh7372_pm_domain where
  "sh7372_a4mp = \<lparr>genpd_name = ''A4MP'', bit_shift = 2, no_debug = False, stay_on = False\<rparr>"

definition sh7372_d4 :: sh7372_pm_domain where
  "sh7372_d4 = \<lparr>genpd_name = ''D4'', bit_shift = 3, no_debug = False, stay_on = False\<rparr>"

definition sh7372_a4r :: sh7372_pm_domain where
  "sh7372_a4r = \<lparr>genpd_name = ''A4R'', bit_shift = 5, no_debug = False, stay_on = True\<rparr>"

definition sh7372_a3rv :: sh7372_pm_domain where
  "sh7372_a3rv = \<lparr>genpd_name = ''A3RV'', bit_shift = 6, no_debug = False, stay_on = False\<rparr>"

definition sh7372_a3ri :: sh7372_pm_domain where
  "sh7372_a3ri = \<lparr>genpd_name = ''A3RI'', bit_shift = 8, no_debug = False, stay_on = False\<rparr>"

text \<open>\<open>stay_on\<close> of A3SP is set at run time by \<open>sh7372_a3sp_init\<close>; the initialiser leaves it false.\<close>

definition sh7372_a3sp :: sh7372_pm_domain where
  "sh7372_a3sp = \<lparr>genpd_name = ''A3SP'', bit_shift = 11, no_debug = True, stay_on = False\<rparr>"

definition sh7372_a3sg :: sh7372_pm_domain where
  "sh7372_a3sg = \<lparr>genpd_name = ''A3SG'', bit_shift = 13, no_debug = False, stay_on = False\<rparr>"

subsection \<open>Domain dependency: A3RV and A4LC\<close>

text \<open>
  \<open>pm_genpd_poweron\<close> and \<open>genpd_queue_power_off_work\<close> belong to the generic
  power-domain framework; a call of either is an event. The value
  \<open>pm_genpd_poweron\<close> returns is dropped, as in the source.
\<close>

definition pd_power_up_a3rv :: "env \<Rightarrow> sh7372_pm_domain \<Rightarrow> world \<Rightarrow> c_int \<times> world" where
  "pd_power_up_a3rv e genpd w =
     (let (ret, w1) = pd_power_up e genpd w;
          (_, w2) = call_extern e Pm_genpd_poweron (genpd_name sh7372_a4lc) w1
      in (ret, w2))"

definition pd_power_down_a3rv :: "env \<Rightarrow> sh7372_pm_domain \<Rightarrow> world \<Rightarrow> c_int \<times> world" where
  "pd_power_down_a3rv e genpd w =
     (let (ret, w1) = pd_power_down e genpd w;
          w2 = emit (Genpd_queue_power_off_work (genpd_name sh7372_a4lc)) w1
      in (ret, w2))"

text \<open>
  Modelled from the spec: \<open>pm_genpd_poweron\<close>, the power-on entry point of the
  generic power-domain framework, which is not in the file. The spec (4.2) has the
  parent forced through \<open>power_up\<close>, idempotent if it is already on, synchronously,
  before the child's power-up call returns. The \<open>power_on\<close> callback that
  \<open>sh7372_init_pm_domain\<close> gives every domain is \<open>pd_power_up\<close>, so the call
  runs \<open>pd_power_up\<close> on the domain and returns its value.
\<close>

definition pm_genpd_poweron :: "env \<Rightarrow> sh7372_pm_domain \<Rightarrow> world \<Rightarrow> c_int \<times> world" where
  "pm_genpd_poweron e genpd w = pd_power_up e genpd w"

text \<open>
  \<open>pd_power_up_a3rv\<close> once more, with the call of \<open>pm_genpd_poweron\<close> carried out
  by the definition above instead of being recorded as an event.
\<close>

definition pd_power_up_a3rv_sync :: "env \<Rightarrow> sh7372_pm_domain \<Rightarrow> world \<Rightarrow> c_int \<times> world" where
  "pd_power_up_a3rv_sync e genpd w =
     (let (ret, w1) = pd_power_up e genpd w;
          (_, w2) = pm_genpd_poweron e sh7372_a4lc w1
      in (ret, w2))"

subsection \<open>Device stop and start\<close>

definition sh7372_stop_dev :: "env \<Rightarrow> device \<Rightarrow> world \<Rightarrow> c_int \<times> world" where
  "sh7372_stop_dev e dev w =
     (case ops_stop dev of
        Some stop \<Rightarrow>
          (let (ret, w1) = call_extern e (Hook stop) (dev_name dev) w
           in if ret \<noteq> 0 then (ret, w1)
              else call_extern e Pm_clk_suspend (dev_name dev) w1)
      | None \<Rightarrow> call_extern e Pm_clk_suspend (dev_name dev) w)"

definition sh7372_start_dev :: "env \<Rightarrow> device \<Rightarrow> world \<Rightarrow> c_int \<times> world" where
  "sh7372_start_dev e dev w =
     (let (ret, w1) = call_extern e Pm_clk_resume (dev_name dev) w
      in if ret \<noteq> 0 then (ret, w1)
         else (case ops_start dev of
                 Some start \<Rightarrow> call_extern e (Hook start) (dev_name dev) w1
               | None \<Rightarrow> (ret, w1)))"

subsection \<open>Core standby\<close>

text \<open>
  \<open>sh7372_cpu_suspend\<close> (assembly) and \<open>cpu_init\<close>, \<open>flush_tlb_all\<close>,
  \<open>set_cr\<close> (kernel) are events. What the sleep did to the retained memory shows in
  the values the reads after it return.

  In \<open>__raw_writel(__raw_readl(smfram + 0x40), __va(__raw_readl(smfram + 0x3c)))\<close>
  the value and the address are the two operands of one assignment, and C does not say
  which of the two reads is made first: the compiler chooses. The choice is a
  parameter of the procedure.
\<close>

datatype arg_order =
    Value_first      \<comment> \<open>\<open>smfram + 0x40\<close> is read before \<open>smfram + 0x3c\<close>\<close>
  | Address_first    \<comment> \<open>\<open>smfram + 0x3c\<close> is read before \<open>smfram + 0x40\<close>\<close>

text \<open>The two reads of the nested call: the value to store, the address read, the world after both.\<close>

definition writel_operands :: "arg_order \<Rightarrow> env \<Rightarrow> addr \<Rightarrow> world \<Rightarrow> u32 \<times> u32 \<times> world" where
  "writel_operands ord e smfram w =
     (case ord of
        Value_first \<Rightarrow>
          (let (v, wa) = raw_readl e (smfram + 0x40) w;
               (a, wb) = raw_readl e (smfram + 0x3c) wa
           in (v, a, wb))
      | Address_first \<Rightarrow>
          (let (a, wa) = raw_readl e (smfram + 0x3c) w;
               (v, wb) = raw_readl e (smfram + 0x40) wa
           in (v, a, wb)))"

definition sh7372_enter_core_standby :: "arg_order \<Rightarrow> env \<Rightarrow> world \<Rightarrow> world" where
  "sh7372_enter_core_standby ord e w =
     (let smfram = SMFRAM;
          w1 = raw_writel 0 APARMBAREA w;
          w2 = raw_writel (virt_to_phys e (sh7372_cpu_resume e)) SBAR w1;
          w3 = raw_writel 0x10 SYSTBCR w2;
          w4 = raw_writel 0 (smfram + 0x3c) w3;
          w5 = emit Sh7372_cpu_suspend w4;
          w6 = emit Cpu_init w5;
          (pt, w7) = raw_readl e (smfram + 0x3c) w6;
          w8 = (if pt \<noteq> 0
                then (let (v, a, wb) = writel_operands ord e smfram w7;
                          wc = raw_writel v (phys_to_virt e a) wb;
                          wd = emit Flush_tlb_all wc;
                          (cr, we) = raw_readl e (smfram + 0x38) wd
                      in emit (Set_cr cr) we)
                else w7);
          w9 = raw_writel 0 SYSTBCR w8
      in raw_writel 0 SBAR w9)"

subsection \<open>Observations and test environments\<close>

text \<open>The microseconds spent in \<open>udelay\<close>.\<close>

fun delay_us :: "event list \<Rightarrow> nat" where
  "delay_us [] = 0"
| "delay_us (Udelay us # evs) = us + delay_us evs"
| "delay_us (ev # evs) = delay_us evs"

text \<open>The two pauses of the polling loops.\<close>

fun is_pause :: "event \<Rightarrow> bool" where
  "is_pause (Udelay us) = True"
| "is_pause Cpu_relax = True"
| "is_pause ev = False"

text \<open>
  The events \<open>pd_power_down\<close> can add for a domain: reads of PSTR and SPDCR, the
  write of the domain's mask to SPDCR, \<open>cpu_relax\<close>, and a debug message unless the
  domain has \<open>no_debug\<close>.
\<close>

fun power_down_event :: "sh7372_pm_domain \<Rightarrow> event \<Rightarrow> bool" where
  "power_down_event pd (Readl a v) = (a = PSTR \<or> a = SPDCR)"
| "power_down_event pd (Writel v a) = (v = domain_mask pd \<and> a = SPDCR)"
| "power_down_event pd Cpu_relax = True"
| "power_down_event pd (Pr_debug m) = (\<not> no_debug pd)"
| "power_down_event pd ev = False"

definition boot :: world where
  "boot = \<lparr>clock = 0, trace = []\<rparr>"

text \<open>
  Simulated hardware: \<open>sim_env on regs\<close> answers every read of address \<open>a\<close> at
  request \<open>n\<close> with \<open>regs n a\<close>, every external call with success, and has
  \<open>pr_debug\<close> switched as \<open>on\<close> says; addresses translate to themselves.
\<close>

definition sim_env :: "bool \<Rightarrow> (nat \<Rightarrow> addr \<Rightarrow> u32) \<Rightarrow> env" where
  "sim_env on regs =
     \<lparr>readl_val = regs, call_ret = (\<lambda>n f arg. 0), pr_debug_on = on,
      virt_to_phys = (\<lambda>a. a), phys_to_virt = (\<lambda>a. a), sh7372_cpu_resume = 0xc0008000\<rparr>"

text \<open>Every register reads all ones for ever: a request bit that never clears.\<close>

definition stuck_high :: "nat \<Rightarrow> addr \<Rightarrow> u32" where
  "stuck_high n a = 0xffffffff"

text \<open>
  A domain that is off and completes a power-up request at request number \<open>t\<close>:
  before \<open>t\<close> the status register reads 0 and the request registers read all
  ones, from \<open>t\<close> on it is the other way round.
\<close>

definition power_up_at :: "nat \<Rightarrow> nat \<Rightarrow> addr \<Rightarrow> u32" where
  "power_up_at t n a =
     (if a = PSTR then (if n < t then 0 else 0xffffffff)
      else (if n < t then 0xffffffff else 0))"

text \<open>
  A3RV and A4LC both off, each completing its power-up request at the second poll:
  requests 0 to 2 are the child's (PSTR, SWUCR twice), requests 3 to 5 the parent's.
\<close>

definition child_then_parent :: "nat \<Rightarrow> addr \<Rightarrow> u32" where
  "child_then_parent n a =
     (if a = PSTR then (if n < 3 then 0 else 0x40)
      else if a = SWUCR then (if n = 1 then 0x40 else if n = 4 then 0x02 else 0)
      else 0)"

text \<open>
  Collaborators whose external functions return \<open>rets f\<close>, whenever they are
  called; every register reads 0.
\<close>

definition call_env :: "(extern \<Rightarrow> c_int) \<Rightarrow> env" where
  "call_env rets =
     \<lparr>readl_val = (\<lambda>n a. 0), call_ret = (\<lambda>n f arg. rets f), pr_debug_on = False,
      virt_to_phys = (\<lambda>a. a), phys_to_virt = (\<lambda>a. a), sh7372_cpu_resume = 0xc0008000\<rparr>"

definition stop_fails :: "extern \<Rightarrow> c_int" where
  "stop_fails f = (if f = Hook 1 then - EIO else 0)"

definition resume_fails :: "extern \<Rightarrow> c_int" where
  "resume_fails f = (if f = Pm_clk_resume then - EIO else 0)"

definition lcdc :: device where
  "lcdc = \<lparr>dev_name = ''sh_mobile_lcdc_fb.0'', ops_stop = Some 1, ops_start = Some 2\<rparr>"

text \<open>
  The retained memory after a sleep in which the core lost power: the three words
  of SMFRAM that the wake-up path reads hold a page-table address, the word to store
  there and a control-register value.
\<close>

definition smfram_after_power_loss :: "nat \<Rightarrow> addr \<Rightarrow> u32" where
  "smfram_after_power_loss n a =
     (if a = SMFRAM + 0x3c then 0x40004000
      else if a = SMFRAM + 0x40 then 0x00000c0e
      else if a = SMFRAM + 0x38 then 0x10c5387d
      else 0)"

definition smfram_clock_gated :: "nat \<Rightarrow> addr \<Rightarrow> u32" where
  "smfram_clock_gated n a = 0"

text \<open>
  Memory that is not stable: every read returns the number of the request in its
  upper half and the low half of the address in its lower half, so that a trace shows
  which read supplied which operand.
\<close>

definition smfram_tagged :: "nat \<Rightarrow> addr \<Rightarrow> u32" where
  "smfram_tagged n a = push_bit 16 (word_of_nat n) OR (a AND 0xffff)"

section \<open>Properties\<close>

subsection \<open>The primitives\<close>

lemma raw_readl_eq:
  "raw_readl e a w =
     (readl_val e (clock w) a,
      w\<lparr>clock := Suc (clock w), trace := trace w @ [Readl a (readl_val e (clock w) a)]\<rparr>)"
  by (simp add: raw_readl_def Let_def)

lemma clock_emit [simp]: "clock (emit ev w) = clock w"
  by (simp add: emit_def)

lemma trace_emit [simp]: "trace (emit ev w) = trace w @ [ev]"
  by (simp add: emit_def)

lemma new_events_append: "trace w' = trace w @ evs \<Longrightarrow> new_events w w' = evs"
  by (simp add: new_events_def)

lemma readl_val_sim_env [simp]: "readl_val (sim_env on regs) = regs"
  by (simp add: sim_env_def)

lemma pr_debug_on_sim_env [simp]: "pr_debug_on (sim_env on regs) = on"
  by (simp add: sim_env_def)

subsection \<open>The polling loops\<close>

text \<open>One turn of each loop, with the register read written out.\<close>

lemma pd_power_down_loop_Suc:
  "pd_power_down_loop e msk (Suc n) w =
     (if readl_val e (clock w) SPDCR AND msk = 0
      then w\<lparr>clock := Suc (clock w),
              trace := trace w @ [Readl SPDCR (readl_val e (clock w) SPDCR)]\<rparr>
      else pd_power_down_loop e msk n
             (w\<lparr>clock := Suc (clock w),
                trace := trace w @ [Readl SPDCR (readl_val e (clock w) SPDCR), Cpu_relax]\<rparr>))"
  by (simp add: raw_readl_eq cpu_relax_def emit_def)

lemma pd_power_up_loop_Suc:
  "pd_power_up_loop e msk (Suc n) w =
     (if readl_val e (clock w) SWUCR AND msk = 0
      then (True, w\<lparr>clock := Suc (clock w),
                     trace := trace w @ [Readl SWUCR (readl_val e (clock w) SWUCR)]\<rparr>)
      else pd_power_up_loop e msk n
             (w\<lparr>clock := Suc (clock w),
                trace := trace w @ [Readl SWUCR (readl_val e (clock w) SWUCR),
                                    if Suc n > PSTR_RETRIES then Udelay PSTR_DELAY_US else Cpu_relax]\<rparr>))"
  by (simp add: raw_readl_eq udelay_def cpu_relax_def emit_def)

text \<open>The same turn for a count written as a numeral.\<close>

lemma pd_power_up_loop_numeral:
  "pd_power_up_loop e msk (numeral k) w =
     (if readl_val e (clock w) SWUCR AND msk = 0
      then (True, w\<lparr>clock := Suc (clock w),
                     trace := trace w @ [Readl SWUCR (readl_val e (clock w) SWUCR)]\<rparr>)
      else pd_power_up_loop e msk (pred_numeral k)
             (w\<lparr>clock := Suc (clock w),
                trace := trace w @ [Readl SWUCR (readl_val e (clock w) SWUCR),
                                    if numeral k > PSTR_RETRIES then Udelay PSTR_DELAY_US else Cpu_relax]\<rparr>))"
  using pd_power_up_loop_Suc [of e msk "pred_numeral k" w]
  by (simp add: numeral_eq_Suc del: pd_power_up_loop.simps)

text \<open>
  When SPDCR shows the bit at each of the \<open>n\<close> polls, the power-down loop runs to
  the end: \<open>n\<close> reads, a \<open>cpu_relax\<close> after each.
\<close>

lemma pd_power_down_loop_exhausted:
  "(\<forall>k<n. readl_val e (clock w + k) SPDCR AND msk \<noteq> 0) \<Longrightarrow>
   pd_power_down_loop e msk n w =
     w\<lparr>clock := clock w + n,
       trace := trace w @
         concat (map (\<lambda>k. [Readl SPDCR (readl_val e (clock w + k) SPDCR), Cpu_relax]) [0..<n])\<rparr>"
proof (induction n arbitrary: w)
  case 0
  show ?case by simp
next
  case (Suc n)
  let ?w1 = "w\<lparr>clock := Suc (clock w),
                trace := trace w @ [Readl SPDCR (readl_val e (clock w) SPDCR), Cpu_relax]\<rparr>"
  from Suc.prems have first: "readl_val e (clock w) SPDCR AND msk \<noteq> 0"
    by (auto dest: spec [of _ 0])
  from Suc.prems have "\<forall>k<n. readl_val e (clock ?w1 + k) SPDCR AND msk \<noteq> 0"
    by (auto dest: spec [of _ "Suc k" for k])
  from Suc.IH [OF this] first show ?case
    by (simp add: pd_power_down_loop_Suc upt_rec [of 0 "Suc n"] map_Suc_upt [symmetric] comp_def
             del: pd_power_down_loop.simps upt_Suc)
qed

text \<open>Whatever SPDCR answers, the power-down loop only reads SPDCR and relaxes.\<close>

lemma pd_power_down_loop_events:
  "\<exists>evs. trace (pd_power_down_loop e msk n w) = trace w @ evs \<and>
         list_all (\<lambda>ev. ev = Cpu_relax \<or> (\<exists>v. ev = Readl SPDCR v)) evs"
proof (induction n arbitrary: w)
  case 0
  show ?case by simp
next
  case (Suc n)
  let ?v = "readl_val e (clock w) SPDCR"
  show ?case
  proof (cases "?v AND msk = 0")
    case True
    then show ?thesis
      by (intro exI [of _ "[Readl SPDCR ?v]"])
         (simp add: pd_power_down_loop_Suc del: pd_power_down_loop.simps)
  next
    case False
    let ?w1 = "w\<lparr>clock := Suc (clock w), trace := trace w @ [Readl SPDCR ?v, Cpu_relax]\<rparr>"
    from False have unfold: "pd_power_down_loop e msk (Suc n) w = pd_power_down_loop e msk n ?w1"
      by (simp add: pd_power_down_loop_Suc del: pd_power_down_loop.simps)
    from Suc.IH [of ?w1] obtain evs where
      "trace (pd_power_down_loop e msk n ?w1) = trace ?w1 @ evs"
      "list_all (\<lambda>ev. ev = Cpu_relax \<or> (\<exists>v. ev = Readl SPDCR v)) evs"
      by blast
    then show ?thesis
      unfolding unfold by (intro exI [of _ "Readl SPDCR ?v # Cpu_relax # evs"]) simp
  qed
qed

text \<open>The same for the power-up loop, with the pause that follows each poll.\<close>

lemma pd_power_up_loop_exhausted:
  "(\<forall>k<n. readl_val e (clock w + k) SWUCR AND msk \<noteq> 0) \<Longrightarrow>
   pd_power_up_loop e msk n w =
     (False,
      w\<lparr>clock := clock w + n,
        trace := trace w @
          concat (map (\<lambda>k. [Readl SWUCR (readl_val e (clock w + k) SWUCR),
                             if n - k > PSTR_RETRIES then Udelay PSTR_DELAY_US else Cpu_relax])
                      [0..<n])\<rparr>)"
proof (induction n arbitrary: w)
  case 0
  show ?case by simp
next
  case (Suc n)
  let ?w1 = "w\<lparr>clock := Suc (clock w),
                trace := trace w @ [Readl SWUCR (readl_val e (clock w) SWUCR),
                   if Suc n > PSTR_RETRIES then Udelay PSTR_DELAY_US else Cpu_relax]\<rparr>"
  from Suc.prems have first: "readl_val e (clock w) SWUCR AND msk \<noteq> 0"
    by (auto dest: spec [of _ 0])
  from Suc.prems have "\<forall>k<n. readl_val e (clock ?w1 + k) SWUCR AND msk \<noteq> 0"
    by (auto dest: spec [of _ "Suc k" for k])
  from Suc.IH [OF this] first show ?case
    by (simp add: pd_power_up_loop_Suc upt_rec [of 0 "Suc n"] map_Suc_upt [symmetric] comp_def
             del: pd_power_up_loop.simps upt_Suc)
qed

text \<open>
  The power-up loop leaves through \<open>goto out\<close> exactly when one of its \<open>n\<close>
  polls would see the bit clear.
\<close>

lemma pd_power_up_loop_left:
  "fst (pd_power_up_loop e msk n w) = (\<exists>k<n. readl_val e (clock w + k) SWUCR AND msk = 0)"
proof (induction n arbitrary: w)
  case 0
  show ?case by simp
next
  case (Suc n)
  show ?case
  proof (cases "readl_val e (clock w) SWUCR AND msk = 0")
    case True
    then have "\<exists>k<Suc n. readl_val e (clock w + k) SWUCR AND msk = 0"
      by (intro exI [of _ 0]) simp
    with True show ?thesis
      by (simp add: pd_power_up_loop_Suc del: pd_power_up_loop.simps)
  next
    case False
    have "(\<exists>k<Suc n. readl_val e (clock w + k) SWUCR AND msk = 0) =
          (\<exists>k<n. readl_val e (Suc (clock w) + k) SWUCR AND msk = 0)"
      (is "?L = ?R")
    proof
      assume ?L
      then obtain k where k: "k < Suc n" "readl_val e (clock w + k) SWUCR AND msk = 0"
        by blast
      with False obtain k' where "k = Suc k'"
        by (cases k) auto
      with k show ?R
        by (intro exI [of _ k']) simp
    next
      assume ?R
      then obtain k where "k < n" "readl_val e (Suc (clock w) + k) SWUCR AND msk = 0"
        by blast
      then show ?L
        by (intro exI [of _ "Suc k"]) simp
    qed
    with False show ?thesis
      by (simp add: pd_power_up_loop_Suc Suc.IH del: pd_power_up_loop.simps)
  qed
qed

lemma pd_power_up_loop_clock:
  "\<not> fst (pd_power_up_loop e msk n w) \<Longrightarrow>
   clock (snd (pd_power_up_loop e msk n w)) = clock w + n"
proof (induction n arbitrary: w)
  case 0
  show ?case by simp
next
  case (Suc n)
  then show ?case
    by (simp add: pd_power_up_loop_Suc del: pd_power_up_loop.simps split: if_splits)
qed

text \<open>
  What the power-up loop adds to the trace, position by position: polls at the even
  positions, and after the poll made with \<open>retry_count = n - j div 2\<close> a
  \<open>udelay\<close> while that count is above \<open>PSTR_RETRIES\<close>, a \<open>cpu_relax\<close>
  otherwise. A loop that ran out of retries added \<open>2 * n\<close> events.
\<close>

lemma pd_power_up_loop_trace:
  "\<exists>evs. trace (snd (pd_power_up_loop e msk n w)) = trace w @ evs \<and>
         length evs \<le> 2 * n \<and>
         (\<not> fst (pd_power_up_loop e msk n w) \<longrightarrow> length evs = 2 * n) \<and>
         (\<forall>j<length evs.
            evs ! j = (if even j then Readl SWUCR (readl_val e (clock w + j div 2) SWUCR)
                       else if n - j div 2 > PSTR_RETRIES then Udelay PSTR_DELAY_US
                       else Cpu_relax))"
proof (induction n arbitrary: w)
  case 0
  show ?case by simp
next
  case (Suc n)
  let ?v = "readl_val e (clock w) SWUCR"
  show ?case
  proof (cases "?v AND msk = 0")
    case True
    then show ?thesis
      by (intro exI [of _ "[Readl SWUCR ?v]"])
         (simp add: pd_power_up_loop_Suc del: pd_power_up_loop.simps)
  next
    case False
    let ?p = "if Suc n > PSTR_RETRIES then Udelay PSTR_DELAY_US else Cpu_relax"
    let ?w1 = "w\<lparr>clock := Suc (clock w), trace := trace w @ [Readl SWUCR ?v, ?p]\<rparr>"
    from False have unfold: "pd_power_up_loop e msk (Suc n) w = pd_power_up_loop e msk n ?w1"
      by (simp add: pd_power_up_loop_Suc del: pd_power_up_loop.simps)
    from Suc.IH [of ?w1] obtain evs where
      tr: "trace (snd (pd_power_up_loop e msk n ?w1)) = trace ?w1 @ evs" and
      len: "length evs \<le> 2 * n" and
      full: "\<not> fst (pd_power_up_loop e msk n ?w1) \<longrightarrow> length evs = 2 * n" and
      nth: "\<forall>j<length evs.
              evs ! j = (if even j then Readl SWUCR (readl_val e (clock ?w1 + j div 2) SWUCR)
                         else if n - j div 2 > PSTR_RETRIES then Udelay PSTR_DELAY_US
                         else Cpu_relax)"
      by blast
    let ?evs = "Readl SWUCR ?v # ?p # evs"
    have "\<forall>j<length ?evs.
            ?evs ! j = (if even j then Readl SWUCR (readl_val e (clock w + j div 2) SWUCR)
                        else if Suc n - j div 2 > PSTR_RETRIES then Udelay PSTR_DELAY_US
                        else Cpu_relax)"
    proof (intro allI impI)
      fix j assume j: "j < length ?evs"
      consider "j = 0" | "j = 1" | i where "j = Suc (Suc i)"
        by (cases j rule: nat.exhaust; cases "j - 1" rule: nat.exhaust) auto
      then show "?evs ! j = (if even j then Readl SWUCR (readl_val e (clock w + j div 2) SWUCR)
                        else if Suc n - j div 2 > PSTR_RETRIES then Udelay PSTR_DELAY_US
                        else Cpu_relax)"
      proof cases
        case 1
        then show ?thesis by simp
      next
        case 2
        then show ?thesis by simp
      next
        case 3
        with j have "i < length evs" by simp
        with nth have "evs ! i = (if even i then Readl SWUCR (readl_val e (clock ?w1 + i div 2) SWUCR)
                         else if n - i div 2 > PSTR_RETRIES then Udelay PSTR_DELAY_US
                         else Cpu_relax)"
          by blast
        with 3 show ?thesis by simp
      qed
    qed
    with tr len full show ?thesis
      unfolding unfold by (intro exI [of _ ?evs]) simp
  qed
qed

subsection \<open>Power-down\<close>

text \<open>
  C1. \<open>pd_power_down\<close> returns 0 for every domain, every world it starts in and
  every environment, that is whatever the registers answer: also when SPDCR keeps the
  request bit set through all 100 polls.
\<close>

theorem pd_power_down_never_fails: "fst (pd_power_down e pd w) = 0"
  by (simp add: pd_power_down_def Let_def split: prod.split)


text \<open>
  On hardware whose request bit never clears the call polls SPDCR 100 times, sees the
  bit set each time, and still returns 0.
\<close>

theorem pd_power_down_never_fails_witness:
  "fst (pd_power_down (sim_env True stuck_high) sh7372_a3rv boot) = 0 \<and>
   trace (snd (pd_power_down (sim_env True stuck_high) sh7372_a3rv boot)) =
     Readl PSTR 0xffffffff # Writel 0x40 SPDCR #
     concat (replicate 100 [Readl SPDCR 0xffffffff, Cpu_relax]) @
     [Readl PSTR 0xffffffff, Pr_debug (Power_off ''A3RV'' 0x40 0xffffffff)]"
proof -
  have stuck: "\<forall>k<100. readl_val (sim_env True stuck_high) (clock w + k) SPDCR AND 0x40 \<noteq> 0"
    for w :: world
    by (simp add: stuck_high_def)
  have "trace (snd (pd_power_down (sim_env True stuck_high) sh7372_a3rv boot)) =
     Readl PSTR 0xffffffff # Writel 0x40 SPDCR #
     concat (replicate 100 [Readl SPDCR 0xffffffff, Cpu_relax]) @
     [Readl PSTR 0xffffffff, Pr_debug (Power_off ''A3RV'' 0x40 0xffffffff)]"
    by (simp add: pd_power_down_def domain_mask_def sh7372_a3rv_def boot_def raw_readl_eq
          raw_writel_def pr_debug_def pd_power_down_loop_exhausted [OF stuck]
          stuck_high_def PSTR_RETRIES_def map_replicate_const Let_def
          del: pd_power_down_loop.simps)
  with pd_power_down_never_fails [of "sim_env True stuck_high" sh7372_a3rv boot]
  show ?thesis by simp
qed

text \<open>Every event of a \<open>pd_power_down\<close> is one of those listed by \<open>power_down_event\<close>.\<close>

lemma pd_power_down_events:
  "\<exists>evs. trace (snd (pd_power_down e pd w)) = trace w @ evs \<and> list_all (power_down_event pd) evs"
proof -
  let ?w1 = "w\<lparr>clock := Suc (clock w), trace := trace w @ [Readl PSTR (readl_val e (clock w) PSTR)]\<rparr>"
  let ?w2 = "if readl_val e (clock w) PSTR AND domain_mask pd \<noteq> 0
             then pd_power_down_loop e (domain_mask pd) PSTR_RETRIES
                    (raw_writel (domain_mask pd) SPDCR ?w1)
             else ?w1"
  from pd_power_down_loop_events [of e "domain_mask pd" PSTR_RETRIES
         "raw_writel (domain_mask pd) SPDCR ?w1"]
  obtain evs where
    tr: "trace (pd_power_down_loop e (domain_mask pd) PSTR_RETRIES
                 (raw_writel (domain_mask pd) SPDCR ?w1)) =
         trace (raw_writel (domain_mask pd) SPDCR ?w1) @ evs" and
    all: "list_all (\<lambda>ev. ev = Cpu_relax \<or> (\<exists>v. ev = Readl SPDCR v)) evs"
    by blast
  from all have all': "list_all (power_down_event pd) evs"
    by (induction evs) auto
  have "\<exists>evs2. trace ?w2 = trace w @ evs2 \<and> list_all (power_down_event pd) evs2"
  proof (cases "readl_val e (clock w) PSTR AND domain_mask pd \<noteq> 0")
    case True
    with tr all' show ?thesis
      by (intro exI [of _ "Readl PSTR (readl_val e (clock w) PSTR) #
                           Writel (domain_mask pd) SPDCR # evs"])
         (simp add: raw_writel_def)
  next
    case False
    then show ?thesis
      by (intro exI [of _ "[Readl PSTR (readl_val e (clock w) PSTR)]"]) simp
  qed
  then obtain evs2 where tr2: "trace ?w2 = trace w @ evs2"
    and all2: "list_all (power_down_event pd) evs2"
    by blast
  have run: "snd (pd_power_down e pd w) =
     (if \<not> no_debug pd
      then pr_debug e (\<lambda>w. let (p', w') = raw_readl e PSTR w
                            in (Power_off (genpd_name pd) (domain_mask pd) p', w')) ?w2
      else ?w2)"
    by (simp add: pd_power_down_def raw_readl_eq Let_def)
  show ?thesis
  proof (cases "\<not> no_debug pd \<and> pr_debug_on e")
    case True
    with tr2 all2 show ?thesis
      unfolding run
      by (intro exI [of _ "evs2 @ [Readl PSTR (readl_val e (clock ?w2) PSTR),
                 Pr_debug (Power_off (genpd_name pd) (domain_mask pd) (readl_val e (clock ?w2) PSTR))]"])
         (simp add: pr_debug_def raw_readl_eq)
  next
    case False
    with tr2 all2 show ?thesis
      unfolding run
      by (intro exI [of _ evs2]) (auto simp add: pr_debug_def)
  qed
qed


text \<open>For a domain with \<open>no_debug\<close> set, \<open>pd_power_down\<close> prints nothing.\<close>

lemma pd_power_down_no_debug_silent:
  assumes "no_debug pd"
  shows "Pr_debug m \<notin> set (new_events w (snd (pd_power_down e pd w)))"
proof -
  from pd_power_down_events [of e pd w] obtain evs where
    tr: "trace (snd (pd_power_down e pd w)) = trace w @ evs" and
    all: "list_all (power_down_event pd) evs"
    by blast
  from all assms have "Pr_debug m \<notin> set evs"
    by (auto simp add: list_all_iff)
  with new_events_append [OF tr] show ?thesis by simp
qed

subsection \<open>Power-up: the value returned\<close>

text \<open>
  \<open>pd_power_up\<close> reads PSTR at request \<open>clock w\<close>, polls SWUCR at the next
  \<open>2 * PSTR_RETRIES\<close> requests and reads SWUCR once more after the loop.
\<close>

lemma pd_power_up_ret:
  "fst (pd_power_up e pd w) =
     (if readl_val e (clock w) PSTR AND domain_mask pd \<noteq> 0 then 0
      else if \<exists>k<2 * PSTR_RETRIES. readl_val e (clock w + 1 + k) SWUCR AND domain_mask pd = 0
           then 0
      else if readl_val e (clock w + 1 + 2 * PSTR_RETRIES) SWUCR AND domain_mask pd \<noteq> 0
           then - EIO
      else 0)"
proof -
  let ?w2 = "raw_writel (domain_mask pd) SWUCR (snd (raw_readl e PSTR w))"
  let ?loop = "pd_power_up_loop e (domain_mask pd) (2 * PSTR_RETRIES) ?w2"
  have c2: "clock ?w2 = clock w + 1"
    by (simp add: raw_readl_eq raw_writel_def)
  have left: "fst ?loop =
      (\<exists>k<2 * PSTR_RETRIES. readl_val e (clock w + 1 + k) SWUCR AND domain_mask pd = 0)"
    by (simp only: pd_power_up_loop_left c2)
  have ck: "\<not> fst ?loop \<Longrightarrow> clock (snd ?loop) = clock w + 1 + 2 * PSTR_RETRIES"
    using pd_power_up_loop_clock [of e "domain_mask pd" "2 * PSTR_RETRIES" ?w2] c2 by simp
  show ?thesis
  proof (cases "fst ?loop")
    case True
    with left show ?thesis
      by (simp add: pd_power_up_def pd_power_up_out_def Let_def case_prod_beta)
  next
    case False
    with left ck [OF False] show ?thesis
      by (auto simp add: pd_power_up_def pd_power_up_out_def Let_def case_prod_beta raw_readl_eq
            raw_writel_def)
  qed
qed


lemma EIO_nonzero: "- EIO \<noteq> (0 :: c_int)"
  by (simp add: EIO_def)

text \<open>
  C2. Take a domain whose status bit reads clear at the first read of PSTR. If SWUCR
  shows the request bit at each of the 200 polls of the loop and still shows it at the
  read that follows the loop, \<open>pd_power_up\<close> returns \<open>- EIO\<close>. If one of the 200
  polls would see the bit clear, it returns 0.
\<close>

theorem pd_power_up_timeout:
  assumes off: "readl_val e (clock w) PSTR AND domain_mask pd = 0"
  shows "((\<forall>k<200. readl_val e (clock w + 1 + k) SWUCR AND domain_mask pd \<noteq> 0) \<and>
          readl_val e (clock w + 201) SWUCR AND domain_mask pd \<noteq> 0
            \<longrightarrow> fst (pd_power_up e pd w) = - EIO) \<and>
         ((\<exists>k<200. readl_val e (clock w + 1 + k) SWUCR AND domain_mask pd = 0)
            \<longrightarrow> fst (pd_power_up e pd w) = 0)"
  using off by (auto simp add: pd_power_up_ret PSTR_RETRIES_def add.commute [of 201])

theorem pd_power_up_timeout_witness:
  "fst (pd_power_up (sim_env True (power_up_at 1000)) sh7372_a4r boot) = - EIO \<and>
   fst (pd_power_up (sim_env True (power_up_at 4)) sh7372_a4r boot) = 0"
proof -
  have m: "domain_mask sh7372_a4r = 0x20"
    by (simp add: domain_mask_def sh7372_a4r_def)
  have neq: "SWUCR \<noteq> PSTR"
    by (simp add: SWUCR_def PSTR_def)
  have "fst (pd_power_up (sim_env True (power_up_at 1000)) sh7372_a4r boot) = - EIO"
    using pd_power_up_timeout [of "sim_env True (power_up_at 1000)" boot sh7372_a4r]
    by (simp add: m neq power_up_at_def boot_def)
  moreover have "\<exists>k<200. power_up_at 4 (Suc k) SWUCR AND (0x20 :: u32)  = 0"
    by (intro exI [of _ 3]) (simp add: power_up_at_def neq)
  then have "fst (pd_power_up (sim_env True (power_up_at 4)) sh7372_a4r boot) = 0"
    using pd_power_up_timeout [of "sim_env True (power_up_at 4)" boot sh7372_a4r]
    by (simp add: m neq power_up_at_def boot_def)
  ultimately show ?thesis by simp
qed

text \<open>
  C10. When the status bit is clear and SWUCR shows the request bit at all 200 polls of
  the loop, the result is decided by one more read of SWUCR, made after the loop: if
  that read sees the bit clear, \<open>pd_power_up\<close> returns 0 and not \<open>- EIO\<close>. The
  trace shows the read: the status read, the write of the mask to SWUCR, the 200 polls
  with their pauses, then the deciding read.
\<close>

theorem pd_power_up_final_read:
  assumes off: "readl_val e (clock w) PSTR AND domain_mask pd = 0"
    and polls: "\<forall>k<200. readl_val e (clock w + 1 + k) SWUCR AND domain_mask pd \<noteq> 0"
    and final: "readl_val e (clock w + 201) SWUCR AND domain_mask pd = 0"
  shows "fst (pd_power_up e pd w) = 0 \<and>
         (\<exists>rest. new_events w (snd (pd_power_up e pd w)) =
            Readl PSTR (readl_val e (clock w) PSTR) # Writel (domain_mask pd) SWUCR #
            concat (map (\<lambda>k. [Readl SWUCR (readl_val e (clock w + 1 + k) SWUCR),
                               if k < 100 then Udelay 10 else Cpu_relax]) [0..<200]) @
            Readl SWUCR (readl_val e (clock w + 201) SWUCR) # rest)"
proof
  from assms show "fst (pd_power_up e pd w) = 0"
    by (auto simp add: pd_power_up_ret PSTR_RETRIES_def add.commute [of 201])
next
  let ?w2 = "emit (Writel (domain_mask pd) SWUCR)
               (w\<lparr>clock := Suc (clock w),
                  trace := trace w @ [Readl PSTR (readl_val e (clock w) PSTR)]\<rparr>)"
  from polls have "\<forall>k<200. readl_val e (clock ?w2 + k) SWUCR AND domain_mask pd \<noteq> 0"
    by simp
  note loop = pd_power_up_loop_exhausted [OF this]
  show "\<exists>rest. new_events w (snd (pd_power_up e pd w)) =
            Readl PSTR (readl_val e (clock w) PSTR) # Writel (domain_mask pd) SWUCR #
            concat (map (\<lambda>k. [Readl SWUCR (readl_val e (clock w + 1 + k) SWUCR),
                               if k < 100 then Udelay 10 else Cpu_relax]) [0..<200]) @
            Readl SWUCR (readl_val e (clock w + 201) SWUCR) # rest"
    using off
    by (simp add: pd_power_up_def pd_power_up_out_def raw_readl_eq raw_writel_def loop
          pr_debug_def new_events_def Let_def PSTR_RETRIES_def PSTR_DELAY_US_def
          add.commute [of 201] less_diff_conv
          del: pd_power_up_loop.simps upt_Suc cong: if_cong)
qed

text \<open>Hardware that completes the request just after the 200th poll.\<close>

theorem pd_power_up_final_read_witness:
  "fst (pd_power_up (sim_env True (power_up_at 201)) sh7372_a3rv boot) = 0"
proof -
  have neq: "SWUCR \<noteq> PSTR"
    by (simp add: SWUCR_def PSTR_def)
  have m: "domain_mask sh7372_a3rv = 0x40"
    by (simp add: domain_mask_def sh7372_a3rv_def)
  have off: "readl_val (sim_env True (power_up_at 201)) (clock boot) PSTR
               AND domain_mask sh7372_a3rv = 0"
    by (simp add: power_up_at_def boot_def)
  have polls: "\<forall>k<200. readl_val (sim_env True (power_up_at 201)) (clock boot + 1 + k) SWUCR
                 AND domain_mask sh7372_a3rv \<noteq> 0"
    by (simp add: power_up_at_def boot_def neq m)
  have final: "readl_val (sim_env True (power_up_at 201)) (clock boot + 201) SWUCR
                 AND domain_mask sh7372_a3rv = 0"
    by (simp add: power_up_at_def boot_def neq)
  from pd_power_up_final_read [OF off polls final] show ?thesis
    by (rule conjunct1)
qed

subsection \<open>Power-up of a domain that is already on\<close>

text \<open>
  C3. When the first read of PSTR shows the domain's bit, \<open>pd_power_up\<close> returns 0
  at once: all it does is that read of PSTR and, with \<open>pr_debug\<close> switched on, the
  trace at \<open>out:\<close> with its own read of PSTR. It polls nothing and writes no
  register, SWUCR included.
\<close>

theorem pd_power_up_already_on:
  assumes on: "readl_val e (clock w) PSTR AND domain_mask pd \<noteq> 0"
  shows "fst (pd_power_up e pd w) = 0 \<and>
         new_events w (snd (pd_power_up e pd w)) =
           Readl PSTR (readl_val e (clock w) PSTR) #
           (if pr_debug_on e
            then [Readl PSTR (readl_val e (clock w + 1) PSTR),
                  Pr_debug (Domain_up (domain_mask pd) (readl_val e (clock w + 1) PSTR))]
            else []) \<and>
         (\<forall>v a. Writel v a \<notin> set (new_events w (snd (pd_power_up e pd w))))"
proof -
  from on have run: "pd_power_up e pd w =
      (0, pr_debug e (\<lambda>w. let (p', w') = raw_readl e PSTR w in (Domain_up (domain_mask pd) p', w'))
            (w\<lparr>clock := Suc (clock w),
               trace := trace w @ [Readl PSTR (readl_val e (clock w) PSTR)]\<rparr>))"
    by (simp add: pd_power_up_def pd_power_up_out_def raw_readl_eq Let_def)
  have evs: "new_events w (snd (pd_power_up e pd w)) =
           Readl PSTR (readl_val e (clock w) PSTR) #
           (if pr_debug_on e
            then [Readl PSTR (readl_val e (clock w + 1) PSTR),
                  Pr_debug (Domain_up (domain_mask pd) (readl_val e (clock w + 1) PSTR))]
            else [])"
    by (simp add: run pr_debug_def raw_readl_eq new_events_def)
  show ?thesis
    by (simp add: evs) (simp add: run)
qed

theorem pd_power_up_already_on_witness:
  "fst (pd_power_up (sim_env True stuck_high) sh7372_a4lc boot) = 0 \<and>
   new_events boot (snd (pd_power_up (sim_env True stuck_high) sh7372_a4lc boot)) =
     [Readl PSTR 0xffffffff, Readl PSTR 0xffffffff, Pr_debug (Domain_up 2 0xffffffff)]"
proof -
  have on: "readl_val (sim_env True stuck_high) (clock boot) PSTR AND domain_mask sh7372_a4lc \<noteq> 0"
    by (simp add: stuck_high_def domain_mask_def sh7372_a4lc_def)
  from pd_power_up_already_on [OF on] show ?thesis
    by (simp add: stuck_high_def domain_mask_def sh7372_a4lc_def)
qed

subsection \<open>Debug traces of \<open>pd_power_up\<close>\<close>

text \<open>
  With \<open>pr_debug\<close> switched on, every call of \<open>pd_power_up\<close> ends with the trace
  at the label \<open>out:\<close>, which carries the mask and the value of PSTR. The statement at
  \<open>out:\<close> does not look at \<open>no_debug\<close>.
\<close>

lemma pd_power_up_domain_up_trace:
  "pr_debug_on e \<Longrightarrow>
   \<exists>p. last (trace (snd (pd_power_up e pd w))) = Pr_debug (Domain_up (domain_mask pd) p)"
  by (simp add: pd_power_up_def pd_power_up_out_def raw_readl_eq Let_def pr_debug_def
        case_prod_beta)

text \<open>
  C6. A successful \<open>pd_power_up\<close> emits a trace of the mask and of PSTR, and for a
  domain with \<open>no_debug\<close> set every such trace is to be skipped. The code keeps
  the first half, by the lemma above, and breaks the second: A3SP is the domain of the
  file with \<open>no_debug\<close> set, and powering it up while its status bit is set returns
  through \<open>out:\<close> and prints there. Of the two \<open>pr_debug\<close> statements of
  \<open>pd_power_up\<close> only the other one tests \<open>no_debug\<close>, as does the single one of
  \<open>pd_power_down\<close>.
\<close>

theorem pd_power_up_a3sp_debug_trace:
  "no_debug sh7372_a3sp \<and>
   new_events boot (snd (pd_power_up (sim_env True stuck_high) sh7372_a3sp boot)) =
     [Readl PSTR 0xffffffff, Readl PSTR 0xffffffff, Pr_debug (Domain_up 0x800 0xffffffff)]"
  by (simp add: pd_power_up_def pd_power_up_out_def raw_readl_eq Let_def pr_debug_def
        new_events_def boot_def stuck_high_def domain_mask_def sh7372_a3sp_def)

subsection \<open>The schedule of the power-up loop\<close>

text \<open>All the \<open>udelay\<close> calls of a loop of \<open>n\<close> retries fall in the retries above \<open>PSTR_RETRIES\<close>.\<close>

lemma pd_power_up_loop_delay:
  "\<exists>evs. trace (snd (pd_power_up_loop e msk n w)) = trace w @ evs \<and>
         delay_us evs \<le> PSTR_DELAY_US * (n - PSTR_RETRIES)"
proof (induction n arbitrary: w)
  case 0
  show ?case by simp
next
  case (Suc n)
  let ?v = "readl_val e (clock w) SWUCR"
  show ?case
  proof (cases "?v AND msk = 0")
    case True
    then show ?thesis
      by (intro exI [of _ "[Readl SWUCR ?v]"])
         (simp add: pd_power_up_loop_Suc del: pd_power_up_loop.simps)
  next
    case False
    let ?p = "if Suc n > PSTR_RETRIES then Udelay PSTR_DELAY_US else Cpu_relax"
    let ?w1 = "w\<lparr>clock := Suc (clock w), trace := trace w @ [Readl SWUCR ?v, ?p]\<rparr>"
    from False have unfold: "pd_power_up_loop e msk (Suc n) w = pd_power_up_loop e msk n ?w1"
      by (simp add: pd_power_up_loop_Suc del: pd_power_up_loop.simps)
    from Suc.IH [of ?w1] obtain evs where
      tr: "trace (snd (pd_power_up_loop e msk n ?w1)) = trace ?w1 @ evs" and
      d: "delay_us evs \<le> PSTR_DELAY_US * (n - PSTR_RETRIES)"
      by blast
    have "delay_us (Readl SWUCR ?v # ?p # evs) \<le> PSTR_DELAY_US * (Suc n - PSTR_RETRIES)"
    proof (cases "Suc n > PSTR_RETRIES")
      case True
      then have "Suc n - PSTR_RETRIES = Suc (n - PSTR_RETRIES)" by simp
      with True d show ?thesis by simp
    next
      case False
      with d show ?thesis by simp
    qed
    with tr show ?thesis
      unfolding unfold by (intro exI [of _ "Readl SWUCR ?v # ?p # evs"]) simp
  qed
qed

text \<open>When the bit never clears, every one of those retries is delayed.\<close>

lemma pd_power_up_loop_delay_exhausted:
  "(\<forall>k<n. readl_val e (clock w + k) SWUCR AND msk \<noteq> 0) \<Longrightarrow>
   \<exists>evs. trace (snd (pd_power_up_loop e msk n w)) = trace w @ evs \<and>
         delay_us evs = PSTR_DELAY_US * (n - PSTR_RETRIES)"
proof (induction n arbitrary: w)
  case 0
  show ?case by simp
next
  case (Suc n)
  let ?v = "readl_val e (clock w) SWUCR"
  let ?p = "if Suc n > PSTR_RETRIES then Udelay PSTR_DELAY_US else Cpu_relax"
  let ?w1 = "w\<lparr>clock := Suc (clock w), trace := trace w @ [Readl SWUCR ?v, ?p]\<rparr>"
  from Suc.prems have "?v AND msk \<noteq> 0"
    by (auto dest: spec [of _ 0])
  then have unfold: "pd_power_up_loop e msk (Suc n) w = pd_power_up_loop e msk n ?w1"
    by (simp add: pd_power_up_loop_Suc del: pd_power_up_loop.simps)
  from Suc.prems have "\<forall>k<n. readl_val e (clock ?w1 + k) SWUCR AND msk \<noteq> 0"
    by (auto dest: spec [of _ "Suc k" for k])
  from Suc.IH [OF this] obtain evs where
    tr: "trace (snd (pd_power_up_loop e msk n ?w1)) = trace ?w1 @ evs" and
    d: "delay_us evs = PSTR_DELAY_US * (n - PSTR_RETRIES)"
    by blast
  have "delay_us (Readl SWUCR ?v # ?p # evs) = PSTR_DELAY_US * (Suc n - PSTR_RETRIES)"
  proof (cases "Suc n > PSTR_RETRIES")
    case True
    then have "Suc n - PSTR_RETRIES = Suc (n - PSTR_RETRIES)" by simp
    with True d show ?thesis by simp
  next
    case False
    with d show ?thesis by simp
  qed
  with tr show ?case
    unfolding unfold by (intro exI [of _ "Readl SWUCR ?v # ?p # evs"]) simp
qed

text \<open>Delays add up over a trace, and a trace without pauses has none.\<close>

lemma delay_us_append: "delay_us (xs @ ys) = delay_us xs + delay_us ys"
  by (induction xs rule: delay_us.induct) simp_all

lemma delay_us_no_pause: "list_all (\<lambda>ev. \<not> is_pause ev) xs \<Longrightarrow> delay_us xs = 0"
  by (induction xs rule: delay_us.induct) simp_all

text \<open>
  With the status bit clear, \<open>pd_power_up\<close> runs the loop with \<open>retry_count\<close>
  starting at \<open>2 * PSTR_RETRIES\<close>, and nothing it does after the loop is a pause.
\<close>

lemma pd_power_up_after_loop:
  assumes off: "readl_val e (clock w) PSTR AND domain_mask pd = 0"
  shows "\<exists>rest. trace (snd (pd_power_up e pd w)) =
           trace (snd (pd_power_up_loop e (domain_mask pd) (2 * PSTR_RETRIES)
                    (raw_writel (domain_mask pd) SWUCR (snd (raw_readl e PSTR w))))) @ rest \<and>
           list_all (\<lambda>ev. \<not> is_pause ev) rest"
  using off
  by (simp add: pd_power_up_def pd_power_up_out_def Let_def case_prod_beta raw_readl_eq
        pr_debug_def del: pd_power_up_loop.simps)

text \<open>
  C7. When the status bit reads clear, \<open>pd_power_up\<close> reads PSTR, writes the mask
  to SWUCR and then polls. The events of the polling loop are at most 400, that is at
  most 200 polls, each but a successful one followed by a pause: a poll of SWUCR at
  every even position, and at the odd position after poll number \<open>j div 2\<close> (counted
  from 0) a \<open>udelay(10)\<close> for the first 100 polls and a \<open>cpu_relax\<close> for the
  other 100. Nothing after the loop is a pause, so the delays of the whole call add up
  to at most 100 times 10 microseconds. When the bit never clears all 200 polls are
  made and the delays add up to exactly that.
\<close>

theorem pd_power_up_poll_schedule:
  assumes off: "readl_val e (clock w) PSTR AND domain_mask pd = 0"
  shows "\<exists>evs rest.
     new_events w (snd (pd_power_up e pd w)) =
       Readl PSTR (readl_val e (clock w) PSTR) # Writel (domain_mask pd) SWUCR # evs @ rest \<and>
     length evs \<le> 2 * 200 \<and>
     (\<forall>j<length evs.
        evs ! j = (if even j then Readl SWUCR (readl_val e (clock w + 1 + j div 2) SWUCR)
                   else if j div 2 < 100 then Udelay 10
                   else Cpu_relax)) \<and>
     list_all (\<lambda>ev. \<not> is_pause ev) rest \<and>
     delay_us (new_events w (snd (pd_power_up e pd w))) \<le> 100 * 10 \<and>
     ((\<forall>k<200. readl_val e (clock w + 1 + k) SWUCR AND domain_mask pd \<noteq> 0) \<longrightarrow>
        length evs = 2 * 200 \<and>
        delay_us (new_events w (snd (pd_power_up e pd w))) = 100 * 10)"
proof -
  let ?p = "readl_val e (clock w) PSTR"
  let ?m = "domain_mask pd"
  let ?w2 = "raw_writel ?m SWUCR (snd (raw_readl e PSTR w))"
  let ?loop = "pd_power_up_loop e ?m (2 * PSTR_RETRIES) ?w2"
  have w2: "clock ?w2 = clock w + 1" "trace ?w2 = trace w @ [Readl PSTR ?p, Writel ?m SWUCR]"
    by (simp_all add: raw_readl_eq raw_writel_def)
  from pd_power_up_loop_trace [of e ?m "2 * PSTR_RETRIES" ?w2] obtain evs where
    tr: "trace (snd ?loop) = trace ?w2 @ evs" and
    len: "length evs \<le> 2 * (2 * PSTR_RETRIES)" and
    full: "\<not> fst ?loop \<longrightarrow> length evs = 2 * (2 * PSTR_RETRIES)" and
    nth: "\<forall>j<length evs.
            evs ! j = (if even j then Readl SWUCR (readl_val e (clock ?w2 + j div 2) SWUCR)
                       else if 2 * PSTR_RETRIES - j div 2 > PSTR_RETRIES then Udelay PSTR_DELAY_US
                       else Cpu_relax)"
    by blast
  from pd_power_up_after_loop [OF off] obtain rest where
    after: "trace (snd (pd_power_up e pd w)) = trace (snd ?loop) @ rest" and
    quiet: "list_all (\<lambda>ev. \<not> is_pause ev) rest"
    by blast
  from after tr w2 have "trace (snd (pd_power_up e pd w)) =
      trace w @ (Readl PSTR ?p # Writel ?m SWUCR # evs @ rest)"
    by simp
  then have evs: "new_events w (snd (pd_power_up e pd w)) =
      Readl PSTR ?p # Writel ?m SWUCR # evs @ rest"
    by (rule new_events_append)
  from quiet have total: "delay_us (new_events w (snd (pd_power_up e pd w))) = delay_us evs"
    by (simp add: evs delay_us_append delay_us_no_pause)
  from pd_power_up_loop_delay [of e ?m "2 * PSTR_RETRIES" ?w2] tr
  have "delay_us evs \<le> PSTR_DELAY_US * (2 * PSTR_RETRIES - PSTR_RETRIES)"
    by auto
  then have delay: "delay_us evs \<le> 100 * 10"
    by (simp add: PSTR_RETRIES_def PSTR_DELAY_US_def)
  have pause: "(2 * PSTR_RETRIES - j div 2 > PSTR_RETRIES) = (j div 2 < 100)" for j
    by (simp add: PSTR_RETRIES_def less_diff_conv)
  from len have len': "length evs \<le> 2 * 200"
    by (simp add: PSTR_RETRIES_def)
  from nth have nth': "\<forall>j<length evs.
      evs ! j = (if even j then Readl SWUCR (readl_val e (clock w + 1 + j div 2) SWUCR)
                 else if j div 2 < 100 then Udelay 10 else Cpu_relax)"
    by (simp add: pause PSTR_DELAY_US_def w2)
  have worst: "(\<forall>k<200. readl_val e (clock w + 1 + k) SWUCR AND ?m \<noteq> 0) \<longrightarrow>
      length evs = 2 * 200 \<and> delay_us (new_events w (snd (pd_power_up e pd w))) = 100 * 10"
  proof
    assume stuck: "\<forall>k<200. readl_val e (clock w + 1 + k) SWUCR AND ?m \<noteq> 0"
    then have stuck': "\<forall>k<2 * PSTR_RETRIES. readl_val e (clock ?w2 + k) SWUCR AND ?m \<noteq> 0"
      by (simp add: PSTR_RETRIES_def w2)
    from pd_power_up_loop_delay_exhausted [OF this] tr
    have "delay_us evs = PSTR_DELAY_US * (2 * PSTR_RETRIES - PSTR_RETRIES)"
      by auto
    then have "delay_us evs = 100 * 10"
      by (simp add: PSTR_RETRIES_def PSTR_DELAY_US_def)
    moreover from stuck' have "\<not> fst ?loop"
      by (simp only: pd_power_up_loop_left) blast
    with full have "length evs = 2 * 200"
      by (simp add: PSTR_RETRIES_def)
    ultimately show "length evs = 2 * 200 \<and>
        delay_us (new_events w (snd (pd_power_up e pd w))) = 100 * 10"
      by (simp add: total)
  qed
  from evs len' nth' quiet delay worst show ?thesis
    unfolding total by blast
qed


text \<open>
  A3RV on hardware that never completes the request: the write of the mask, the first
  poll, the last \<open>udelay\<close> (after poll 100), the first and the last \<open>cpu_relax\<close>
  (after polls 101 and 200), and one millisecond of delay in all.
\<close>

theorem pd_power_up_poll_schedule_witness:
  "new_events boot (snd (pd_power_up (sim_env True (power_up_at 1000)) sh7372_a3rv boot)) ! 1
     = Writel 0x40 SWUCR \<and>
   new_events boot (snd (pd_power_up (sim_env True (power_up_at 1000)) sh7372_a3rv boot)) ! 2
     = Readl SWUCR 0xffffffff \<and>
   new_events boot (snd (pd_power_up (sim_env True (power_up_at 1000)) sh7372_a3rv boot)) ! 201
     = Udelay 10 \<and>
   new_events boot (snd (pd_power_up (sim_env True (power_up_at 1000)) sh7372_a3rv boot)) ! 203
     = Cpu_relax \<and>
   new_events boot (snd (pd_power_up (sim_env True (power_up_at 1000)) sh7372_a3rv boot)) ! 401
     = Cpu_relax \<and>
   delay_us (new_events boot (snd (pd_power_up (sim_env True (power_up_at 1000)) sh7372_a3rv boot)))
     = 1000"
proof -
  let ?e = "sim_env True (power_up_at 1000)"
  let ?T = "new_events boot (snd (pd_power_up ?e sh7372_a3rv boot))"
  have neq: "SWUCR \<noteq> PSTR"
    by (simp add: SWUCR_def PSTR_def)
  have m: "domain_mask sh7372_a3rv = 0x40"
    by (simp add: domain_mask_def sh7372_a3rv_def)
  have off: "readl_val ?e (clock boot) PSTR AND domain_mask sh7372_a3rv = 0"
    by (simp add: power_up_at_def boot_def)
  have stuck: "\<forall>k<200. readl_val ?e (clock boot + 1 + k) SWUCR AND domain_mask sh7372_a3rv \<noteq> 0"
    by (simp add: power_up_at_def boot_def neq m)
  from pd_power_up_poll_schedule [OF off] stuck obtain evs rest where
    T: "?T = Readl PSTR (readl_val ?e (clock boot) PSTR) #
               Writel (domain_mask sh7372_a3rv) SWUCR # evs @ rest" and
    nth: "\<forall>j<length evs.
        evs ! j = (if even j then Readl SWUCR (readl_val ?e (clock boot + 1 + j div 2) SWUCR)
                   else if j div 2 < 100 then Udelay 10
                   else Cpu_relax)" and
    len: "length evs = 2 * 200" and
    delay: "delay_us ?T = 100 * 10"
    by blast
  have at: "?T ! Suc (Suc j) = evs ! j" if "j < 400" for j
    using that len by (simp add: T nth_append)
  have ev: "evs ! j = (if even j then Readl SWUCR (readl_val ?e (clock boot + 1 + j div 2) SWUCR)
                   else if j div 2 < 100 then Udelay 10
                   else Cpu_relax)" if "j < 400" for j
    using that len nth by simp
  have "?T ! 1 = Writel 0x40 SWUCR"
    by (simp add: T m)
  moreover have "?T ! 2 = Readl SWUCR 0xffffffff"
    using at [of 0] ev [of 0] by (simp add: power_up_at_def neq boot_def numeral_2_eq_2)
  moreover have "?T ! 201 = Udelay 10"
    using at [of 199] ev [of 199] by simp
  moreover have "?T ! 203 = Cpu_relax"
    using at [of 201] ev [of 201] by simp
  moreover have "?T ! 401 = Cpu_relax"
    using at [of 399] ev [of 399] by simp
  moreover from delay have "delay_us ?T = 1000"
    by simp
  ultimately show ?thesis by blast
qed

subsection \<open>A3RV and its parent A4LC\<close>

text \<open>
  C9. \<open>pd_power_up_a3rv\<close> returns what \<open>pd_power_up\<close> returned for the child,
  and after everything \<open>pd_power_up\<close> did it calls \<open>pm_genpd_poweron\<close> for
  A4LC: on every path, the failed ones included, since nothing is tested between the
  two calls.
\<close>

theorem pd_power_up_a3rv_unconditional:
  "fst (pd_power_up_a3rv e genpd w) = fst (pd_power_up e genpd w) \<and>
   trace (snd (pd_power_up_a3rv e genpd w)) =
     trace (snd (pd_power_up e genpd w)) @
     [Call Pm_genpd_poweron ''A4LC''
        (call_ret e (clock (snd (pd_power_up e genpd w))) Pm_genpd_poweron ''A4LC'')]"
  by (simp add: pd_power_up_a3rv_def call_extern_def case_prod_beta Let_def sh7372_a4lc_def)

theorem pd_power_up_a3rv_unconditional_witness:
  "fst (pd_power_up_a3rv (sim_env True (power_up_at 1000)) sh7372_a3rv boot) = - EIO \<and>
   last (trace (snd (pd_power_up_a3rv (sim_env True (power_up_at 1000)) sh7372_a3rv boot))) =
     Call Pm_genpd_poweron ''A4LC'' 0"
proof -
  have neq: "SWUCR \<noteq> PSTR"
    by (simp add: SWUCR_def PSTR_def)
  have "fst (pd_power_up (sim_env True (power_up_at 1000)) sh7372_a3rv boot) = - EIO"
    by (simp add: pd_power_up_ret power_up_at_def neq domain_mask_def sh7372_a3rv_def
          PSTR_RETRIES_def boot_def)
  with pd_power_up_a3rv_unconditional [of "sim_env True (power_up_at 1000)" sh7372_a3rv boot]
  show ?thesis
    by (simp add: sim_env_def)
qed

text \<open>
  The first two events of a power-up of a domain that is off, and all events of a
  power-up of a domain that is on.
\<close>

lemma pd_power_up_request:
  assumes off: "readl_val e (clock w) PSTR AND domain_mask pd = 0"
  shows "\<exists>rest. new_events w (snd (pd_power_up e pd w)) =
           Readl PSTR (readl_val e (clock w) PSTR) # Writel (domain_mask pd) SWUCR # rest"
proof -
  let ?w2 = "raw_writel (domain_mask pd) SWUCR (snd (raw_readl e PSTR w))"
  let ?loop = "pd_power_up_loop e (domain_mask pd) (2 * PSTR_RETRIES) ?w2"
  from pd_power_up_loop_trace [of e "domain_mask pd" "2 * PSTR_RETRIES" ?w2] obtain evs where
    "trace (snd ?loop) = trace ?w2 @ evs"
    by blast
  moreover from pd_power_up_after_loop [OF off] obtain rest where
    "trace (snd (pd_power_up e pd w)) = trace (snd ?loop) @ rest"
    by blast
  ultimately have "trace (snd (pd_power_up e pd w)) =
      trace w @ (Readl PSTR (readl_val e (clock w) PSTR) # Writel (domain_mask pd) SWUCR # evs @ rest)"
    by (simp add: raw_readl_eq raw_writel_def)
  then have "new_events w (snd (pd_power_up e pd w)) =
      Readl PSTR (readl_val e (clock w) PSTR) # Writel (domain_mask pd) SWUCR # evs @ rest"
    by (rule new_events_append)
  then show ?thesis by blast
qed

lemma pd_power_up_on_events:
  assumes on: "readl_val e (clock w) PSTR AND domain_mask pd \<noteq> 0"
  shows "new_events w (snd (pd_power_up e pd w)) =
           Readl PSTR (readl_val e (clock w) PSTR) #
           (if pr_debug_on e
            then [Readl PSTR (readl_val e (clock w + 1) PSTR),
                  Pr_debug (Domain_up (domain_mask pd) (readl_val e (clock w + 1) PSTR))]
            else [])"
  using on
  by (simp add: pd_power_up_def pd_power_up_out_def raw_readl_eq Let_def pr_debug_def
        new_events_def)

text \<open>
  C4. The rule for A3RV and A4LC is not symmetric. Powering A3RV up: the last thing
  \<open>pd_power_up_a3rv\<close> does before it returns is the call of
  \<open>pm_genpd_poweron\<close> for A4LC. With that call carried out as the spec describes
  it, the world returned is the one in which \<open>pd_power_up\<close> has run to its end on
  A4LC, starting where the child's power-up stopped: when the status bit of A4LC
  reads clear, the mask of A4LC is written to SWUCR right after that read, and the
  parent's power-up returns 0 if SWUCR shows the bit clear at one of the 200 polls;
  when the status bit reads set, nothing is written. Powering A3RV down ends with
  \<open>genpd_queue_power_off_work\<close> for A4LC and does nothing else to A4LC: no value
  written to SPDCR has the bit of A4LC, and no external function is called.
\<close>

theorem a3rv_a4lc_asymmetry:
  "(fst (pd_power_up_a3rv e sh7372_a3rv w) = 0 \<longrightarrow>
      (\<exists>r. trace (snd (pd_power_up_a3rv e sh7372_a3rv w)) =
             trace (snd (pd_power_up e sh7372_a3rv w)) @ [Call Pm_genpd_poweron ''A4LC'' r])) \<and>
   (fst (pd_power_up_a3rv_sync e sh7372_a3rv w) = 0 \<longrightarrow>
      snd (pd_power_up_a3rv_sync e sh7372_a3rv w) =
        snd (pd_power_up e sh7372_a4lc (snd (pd_power_up e sh7372_a3rv w))) \<and>
      (readl_val e (clock (snd (pd_power_up e sh7372_a3rv w))) PSTR AND domain_mask sh7372_a4lc = 0 \<longrightarrow>
         (\<exists>rest. new_events (snd (pd_power_up e sh7372_a3rv w))
                   (snd (pd_power_up_a3rv_sync e sh7372_a3rv w)) =
            Readl PSTR (readl_val e (clock (snd (pd_power_up e sh7372_a3rv w))) PSTR) #
            Writel (domain_mask sh7372_a4lc) SWUCR # rest)) \<and>
      (readl_val e (clock (snd (pd_power_up e sh7372_a3rv w))) PSTR AND domain_mask sh7372_a4lc \<noteq> 0 \<longrightarrow>
         (\<forall>v a. Writel v a \<notin> set (new_events (snd (pd_power_up e sh7372_a3rv w))
                                   (snd (pd_power_up_a3rv_sync e sh7372_a3rv w))))) \<and>
      ((\<exists>k<200. readl_val e (clock (snd (pd_power_up e sh7372_a3rv w)) + 1 + k) SWUCR
                    AND domain_mask sh7372_a4lc = 0) \<longrightarrow>
         fst (pm_genpd_poweron e sh7372_a4lc (snd (pd_power_up e sh7372_a3rv w))) = 0)) \<and>
   trace (snd (pd_power_down_a3rv e sh7372_a3rv w)) =
     trace (snd (pd_power_down e sh7372_a3rv w)) @ [Genpd_queue_power_off_work ''A4LC''] \<and>
   (\<forall>v. v AND domain_mask sh7372_a4lc \<noteq> 0 \<longrightarrow>
        Writel v SPDCR \<notin> set (new_events w (snd (pd_power_down_a3rv e sh7372_a3rv w)))) \<and>
   (\<forall>f a r. Call f a r \<notin> set (new_events w (snd (pd_power_down_a3rv e sh7372_a3rv w))))"
proof -
  let ?w1 = "snd (pd_power_up e sh7372_a3rv w)"
  have up: "\<exists>r. trace (snd (pd_power_up_a3rv e sh7372_a3rv w)) =
             trace (snd (pd_power_up e sh7372_a3rv w)) @ [Call Pm_genpd_poweron ''A4LC'' r]"
    by (simp add: pd_power_up_a3rv_def call_extern_def case_prod_beta Let_def sh7372_a4lc_def)
  have sync: "snd (pd_power_up_a3rv_sync e sh7372_a3rv w) = snd (pd_power_up e sh7372_a4lc ?w1)"
    by (simp add: pd_power_up_a3rv_sync_def pm_genpd_poweron_def case_prod_beta Let_def)
  have request: "\<exists>rest. new_events ?w1 (snd (pd_power_up e sh7372_a4lc ?w1)) =
            Readl PSTR (readl_val e (clock ?w1) PSTR) # Writel (domain_mask sh7372_a4lc) SWUCR # rest"
    if "readl_val e (clock ?w1) PSTR AND domain_mask sh7372_a4lc = 0"
    using that by (rule pd_power_up_request)
  have idem: "Writel v a \<notin> set (new_events ?w1 (snd (pd_power_up e sh7372_a4lc ?w1)))"
    if "readl_val e (clock ?w1) PSTR AND domain_mask sh7372_a4lc \<noteq> 0" for v a
    by (simp add: pd_power_up_on_events [OF that])
  have acked: "fst (pm_genpd_poweron e sh7372_a4lc ?w1) = 0"
    if "\<exists>k<200. readl_val e (clock ?w1 + 1 + k) SWUCR AND domain_mask sh7372_a4lc = 0"
    using that by (simp add: pm_genpd_poweron_def pd_power_up_ret PSTR_RETRIES_def)
  have down: "trace (snd (pd_power_down_a3rv e sh7372_a3rv w)) =
     trace (snd (pd_power_down e sh7372_a3rv w)) @ [Genpd_queue_power_off_work ''A4LC'']"
    by (simp add: pd_power_down_a3rv_def case_prod_beta Let_def sh7372_a4lc_def)
  from pd_power_down_events [of e sh7372_a3rv w] obtain evs where
    tr: "trace (snd (pd_power_down e sh7372_a3rv w)) = trace w @ evs" and
    all: "list_all (power_down_event sh7372_a3rv) evs"
    by blast
  from down tr have "trace (snd (pd_power_down_a3rv e sh7372_a3rv w)) =
      trace w @ (evs @ [Genpd_queue_power_off_work ''A4LC''])"
    by simp
  then have evs: "new_events w (snd (pd_power_down_a3rv e sh7372_a3rv w)) =
      evs @ [Genpd_queue_power_off_work ''A4LC'']"
    by (rule new_events_append)
  have masks: "domain_mask sh7372_a3rv AND domain_mask sh7372_a4lc = 0"
    by (simp add: domain_mask_def sh7372_a3rv_def sh7372_a4lc_def)
  have no_write: "Writel v SPDCR \<notin> set evs" if "v AND domain_mask sh7372_a4lc \<noteq> 0" for v
  proof
    assume "Writel v SPDCR \<in> set evs"
    with all have "power_down_event sh7372_a3rv (Writel v SPDCR)"
      by (auto simp add: list_all_iff)
    then have "v = domain_mask sh7372_a3rv" by simp
    with masks that show False by simp
  qed
  have no_call: "Call f a r \<notin> set evs" for f a r
  proof
    assume "Call f a r \<in> set evs"
    with all have "power_down_event sh7372_a3rv (Call f a r)"
      by (auto simp add: list_all_iff)
    then show False by simp
  qed
  from up request idem acked down no_write no_call show ?thesis
    unfolding sync by (simp add: evs)
qed


text \<open>
  Both domains off and responsive hardware: the child's request, then the parent's,
  all in the trace of the one call; the same run with the framework call left opaque;
  and the power-down of a child that is already off.
\<close>

theorem a3rv_a4lc_asymmetry_witness:
  "fst (pd_power_up_a3rv_sync (sim_env False child_then_parent) sh7372_a3rv boot) = 0 \<and>
   new_events boot (snd (pd_power_up_a3rv_sync (sim_env False child_then_parent) sh7372_a3rv boot)) =
     [Readl PSTR 0, Writel 0x40 SWUCR, Readl SWUCR 0x40, Udelay 10, Readl SWUCR 0,
      Readl PSTR 0x40, Writel 0x02 SWUCR, Readl SWUCR 0x02, Udelay 10, Readl SWUCR 0] \<and>
   new_events boot (snd (pd_power_up_a3rv (sim_env False child_then_parent) sh7372_a3rv boot)) =
     [Readl PSTR 0, Writel 0x40 SWUCR, Readl SWUCR 0x40, Udelay 10, Readl SWUCR 0,
      Call Pm_genpd_poweron ''A4LC'' 0] \<and>
   new_events boot (snd (pd_power_down_a3rv (sim_env False child_then_parent) sh7372_a3rv boot)) =
     [Readl PSTR 0, Genpd_queue_power_off_work ''A4LC'']"
proof -
  let ?e = "sim_env False child_then_parent"
  let ?w1 = "\<lparr>clock = 3,
              trace = [Readl PSTR 0, Writel 0x40 SWUCR, Readl SWUCR 0x40, Udelay 10, Readl SWUCR 0]\<rparr>"
  have neq: "SWUCR \<noteq> PSTR"
    by (simp add: SWUCR_def PSTR_def)
  have tb: "trace boot = []"
    by (simp add: boot_def)
  have cr: "call_ret ?e = (\<lambda>n f arg. 0)"
    by (simp add: sim_env_def)
  have child: "pd_power_up ?e sh7372_a3rv boot = (0, ?w1)"
    by (simp add: pd_power_up_def pd_power_up_out_def pr_debug_def raw_readl_eq raw_writel_def
          emit_def Let_def boot_def domain_mask_def sh7372_a3rv_def PSTR_RETRIES_def
          PSTR_DELAY_US_def pd_power_up_loop_numeral child_then_parent_def neq
          del: pd_power_up_loop.simps split del: if_split)
  have parent: "pd_power_up ?e sh7372_a4lc ?w1 =
      (0, \<lparr>clock = 6,
            trace = [Readl PSTR 0, Writel 0x40 SWUCR, Readl SWUCR 0x40, Udelay 10, Readl SWUCR 0,
                     Readl PSTR 0x40, Writel 0x02 SWUCR, Readl SWUCR 0x02, Udelay 10,
                     Readl SWUCR 0]\<rparr>)"
    by (simp add: pd_power_up_def pd_power_up_out_def pr_debug_def raw_readl_eq raw_writel_def
          emit_def Let_def domain_mask_def sh7372_a4lc_def PSTR_RETRIES_def
          PSTR_DELAY_US_def pd_power_up_loop_numeral child_then_parent_def neq
          del: pd_power_up_loop.simps split del: if_split)
  note asym = a3rv_a4lc_asymmetry [of ?e boot]
  have ok: "fst (pd_power_up_a3rv_sync ?e sh7372_a3rv boot) = 0"
    by (simp add: pd_power_up_a3rv_sync_def case_prod_beta Let_def child)
  with asym have "snd (pd_power_up_a3rv_sync ?e sh7372_a3rv boot) =
      snd (pd_power_up ?e sh7372_a4lc (snd (pd_power_up ?e sh7372_a3rv boot)))"
    by blast
  then have sync: "new_events boot (snd (pd_power_up_a3rv_sync ?e sh7372_a3rv boot)) =
     [Readl PSTR 0, Writel 0x40 SWUCR, Readl SWUCR 0x40, Udelay 10, Readl SWUCR 0,
      Readl PSTR 0x40, Writel 0x02 SWUCR, Readl SWUCR 0x02, Udelay 10, Readl SWUCR 0]"
    by (simp add: child parent new_events_def tb)
  have opaque: "new_events boot (snd (pd_power_up_a3rv ?e sh7372_a3rv boot)) =
     [Readl PSTR 0, Writel 0x40 SWUCR, Readl SWUCR 0x40, Udelay 10, Readl SWUCR 0,
      Call Pm_genpd_poweron ''A4LC'' 0]"
    by (simp add: pd_power_up_a3rv_def call_extern_def case_prod_beta Let_def child
          new_events_def tb sh7372_a4lc_def cr)
  have "pd_power_down ?e sh7372_a3rv boot = (0, \<lparr>clock = 1, trace = [Readl PSTR 0]\<rparr>)"
    by (simp add: pd_power_down_def pr_debug_def raw_readl_eq Let_def boot_def
          child_then_parent_def sh7372_a3rv_def domain_mask_def split del: if_split)
  with asym have down: "new_events boot (snd (pd_power_down_a3rv ?e sh7372_a3rv boot)) =
     [Readl PSTR 0, Genpd_queue_power_off_work ''A4LC'']"
    by (simp add: new_events_def tb)
  from ok sync opaque down show ?thesis by blast
qed

subsection \<open>Device stop and start\<close>

text \<open>
  C8. \<open>sh7372_stop_dev\<close> calls the stop hook first, when there is one: if the hook
  returns non-zero, that value is returned and the hook call is the only event, so
  \<open>pm_clk_suspend\<close> is not called; if the hook returns 0, or there is no hook,
  \<open>pm_clk_suspend\<close> is called next and its value returned.
  \<open>sh7372_start_dev\<close> calls \<open>pm_clk_resume\<close> first: if it returns non-zero, that
  value is returned and the start hook is not called; otherwise the start hook, when
  there is one, is called and its value returned, and without a hook the result is 0.
\<close>

theorem sh7372_stop_start_order:
  "(\<forall>stop. ops_stop dev = Some stop \<and> call_ret e (clock w) (Hook stop) (dev_name dev) \<noteq> 0 \<longrightarrow>
      fst (sh7372_stop_dev e dev w) = call_ret e (clock w) (Hook stop) (dev_name dev) \<and>
      new_events w (snd (sh7372_stop_dev e dev w)) =
        [Call (Hook stop) (dev_name dev) (call_ret e (clock w) (Hook stop) (dev_name dev))]) \<and>
   (\<forall>stop. ops_stop dev = Some stop \<and> call_ret e (clock w) (Hook stop) (dev_name dev) = 0 \<longrightarrow>
      fst (sh7372_stop_dev e dev w) = call_ret e (clock w + 1) Pm_clk_suspend (dev_name dev) \<and>
      new_events w (snd (sh7372_stop_dev e dev w)) =
        [Call (Hook stop) (dev_name dev) 0,
         Call Pm_clk_suspend (dev_name dev)
           (call_ret e (clock w + 1) Pm_clk_suspend (dev_name dev))]) \<and>
   (ops_stop dev = None \<longrightarrow>
      fst (sh7372_stop_dev e dev w) = call_ret e (clock w) Pm_clk_suspend (dev_name dev) \<and>
      new_events w (snd (sh7372_stop_dev e dev w)) =
        [Call Pm_clk_suspend (dev_name dev)
           (call_ret e (clock w) Pm_clk_suspend (dev_name dev))]) \<and>
   (call_ret e (clock w) Pm_clk_resume (dev_name dev) \<noteq> 0 \<longrightarrow>
      fst (sh7372_start_dev e dev w) = call_ret e (clock w) Pm_clk_resume (dev_name dev) \<and>
      new_events w (snd (sh7372_start_dev e dev w)) =
        [Call Pm_clk_resume (dev_name dev)
           (call_ret e (clock w) Pm_clk_resume (dev_name dev))]) \<and>
   (\<forall>start. call_ret e (clock w) Pm_clk_resume (dev_name dev) = 0 \<and> ops_start dev = Some start \<longrightarrow>
      fst (sh7372_start_dev e dev w) = call_ret e (clock w + 1) (Hook start) (dev_name dev) \<and>
      new_events w (snd (sh7372_start_dev e dev w)) =
        [Call Pm_clk_resume (dev_name dev) 0,
         Call (Hook start) (dev_name dev)
           (call_ret e (clock w + 1) (Hook start) (dev_name dev))]) \<and>
   (call_ret e (clock w) Pm_clk_resume (dev_name dev) = 0 \<and> ops_start dev = None \<longrightarrow>
      fst (sh7372_start_dev e dev w) = 0 \<and>
      new_events w (snd (sh7372_start_dev e dev w)) = [Call Pm_clk_resume (dev_name dev) 0])"
  by (simp add: sh7372_stop_dev_def sh7372_start_dev_def call_extern_def Let_def new_events_def)


theorem sh7372_stop_start_order_witness:
  "fst (sh7372_stop_dev (call_env stop_fails) lcdc boot) = - EIO \<and>
   new_events boot (snd (sh7372_stop_dev (call_env stop_fails) lcdc boot)) =
     [Call (Hook 1) ''sh_mobile_lcdc_fb.0'' (- EIO)] \<and>
   fst (sh7372_start_dev (call_env resume_fails) lcdc boot) = - EIO \<and>
   new_events boot (snd (sh7372_start_dev (call_env resume_fails) lcdc boot)) =
     [Call Pm_clk_resume ''sh_mobile_lcdc_fb.0'' (- EIO)]"
proof -
  have stop: "ops_stop lcdc = Some 1 \<and>
      call_ret (call_env stop_fails) (clock boot) (Hook 1) (dev_name lcdc) \<noteq> 0"
    by (simp add: lcdc_def call_env_def stop_fails_def EIO_def)
  have resume: "call_ret (call_env resume_fails) (clock boot) Pm_clk_resume (dev_name lcdc) \<noteq> 0"
    by (simp add: call_env_def resume_fails_def EIO_def)
  from sh7372_stop_start_order [of lcdc "call_env stop_fails" boot] stop
  have "fst (sh7372_stop_dev (call_env stop_fails) lcdc boot) =
          call_ret (call_env stop_fails) (clock boot) (Hook 1) (dev_name lcdc) \<and>
        new_events boot (snd (sh7372_stop_dev (call_env stop_fails) lcdc boot)) =
          [Call (Hook 1) (dev_name lcdc)
             (call_ret (call_env stop_fails) (clock boot) (Hook 1) (dev_name lcdc))]"
    by blast
  moreover from sh7372_stop_start_order [of lcdc "call_env resume_fails" boot] resume
  have "fst (sh7372_start_dev (call_env resume_fails) lcdc boot) =
          call_ret (call_env resume_fails) (clock boot) Pm_clk_resume (dev_name lcdc) \<and>
        new_events boot (snd (sh7372_start_dev (call_env resume_fails) lcdc boot)) =
          [Call Pm_clk_resume (dev_name lcdc)
             (call_ret (call_env resume_fails) (clock boot) Pm_clk_resume (dev_name lcdc))]"
    by blast
  ultimately show ?thesis
    by (simp add: lcdc_def call_env_def stop_fails_def resume_fails_def)
qed

subsection \<open>Core standby\<close>

text \<open>
  C5. After \<open>sh7372_cpu_suspend\<close> and \<open>cpu_init\<close> the procedure reads the word
  at SMFRAM + 0x3c. When it reads 0, the only things that follow are the two writes
  that switch core standby and the reset vector off: no store to a page table, no
  \<open>flush_tlb_all\<close>, no \<open>set_cr\<close>. When it reads non-zero, the procedure reads
  the words saved at SMFRAM + 0x40 and at SMFRAM + 0x3c, in the order the compiler
  chose, stores the first at the virtual address of the second, calls
  \<open>flush_tlb_all\<close>, passes the word saved at SMFRAM + 0x38 to \<open>set_cr\<close>, and
  then switches core standby and the reset vector off. This holds for either order of
  the two reads; the order only decides which request supplies which operand.
\<close>

theorem sh7372_enter_core_standby_recovery:
  "(readl_val e (clock w) (SMFRAM + 0x3c) = 0 \<longrightarrow>
      new_events w (sh7372_enter_core_standby ord e w) =
        [Writel 0 APARMBAREA, Writel (virt_to_phys e (sh7372_cpu_resume e)) SBAR,
         Writel 0x10 SYSTBCR, Writel 0 (SMFRAM + 0x3c), Sh7372_cpu_suspend, Cpu_init,
         Readl (SMFRAM + 0x3c) 0,
         Writel 0 SYSTBCR, Writel 0 SBAR]) \<and>
   (readl_val e (clock w) (SMFRAM + 0x3c) \<noteq> 0 \<longrightarrow>
      new_events w (sh7372_enter_core_standby ord e w) =
        [Writel 0 APARMBAREA, Writel (virt_to_phys e (sh7372_cpu_resume e)) SBAR,
         Writel 0x10 SYSTBCR, Writel 0 (SMFRAM + 0x3c), Sh7372_cpu_suspend, Cpu_init,
         Readl (SMFRAM + 0x3c) (readl_val e (clock w) (SMFRAM + 0x3c))] @
        (case ord of
           Value_first \<Rightarrow>
             [Readl (SMFRAM + 0x40) (readl_val e (clock w + 1) (SMFRAM + 0x40)),
              Readl (SMFRAM + 0x3c) (readl_val e (clock w + 2) (SMFRAM + 0x3c)),
              Writel (readl_val e (clock w + 1) (SMFRAM + 0x40))
                     (phys_to_virt e (readl_val e (clock w + 2) (SMFRAM + 0x3c)))]
         | Address_first \<Rightarrow>
             [Readl (SMFRAM + 0x3c) (readl_val e (clock w + 1) (SMFRAM + 0x3c)),
              Readl (SMFRAM + 0x40) (readl_val e (clock w + 2) (SMFRAM + 0x40)),
              Writel (readl_val e (clock w + 2) (SMFRAM + 0x40))
                     (phys_to_virt e (readl_val e (clock w + 1) (SMFRAM + 0x3c)))]) @
        [Flush_tlb_all,
         Readl (SMFRAM + 0x38) (readl_val e (clock w + 3) (SMFRAM + 0x38)),
         Set_cr (readl_val e (clock w + 3) (SMFRAM + 0x38)),
         Writel 0 SYSTBCR, Writel 0 SBAR])"
  by (cases ord)
     (simp_all add: sh7372_enter_core_standby_def writel_operands_def raw_readl_eq raw_writel_def
        Let_def new_events_def numeral_3_eq_3)

text \<open>
  A sleep without power loss; a sleep with power loss and stable memory, where the
  order of the two reads shows only in the order of the two events; and memory that
  changes between the reads, where the order also decides what is stored where.
\<close>

theorem sh7372_enter_core_standby_recovery_witness:
  "new_events boot (sh7372_enter_core_standby Address_first (sim_env False smfram_clock_gated) boot) =
     [Writel 0 APARMBAREA, Writel 0xc0008000 SBAR, Writel 0x10 SYSTBCR,
      Writel 0 (SMFRAM + 0x3c), Sh7372_cpu_suspend, Cpu_init,
      Readl (SMFRAM + 0x3c) 0,
      Writel 0 SYSTBCR, Writel 0 SBAR] \<and>
   new_events boot (sh7372_enter_core_standby Address_first (sim_env False smfram_after_power_loss) boot) =
     [Writel 0 APARMBAREA, Writel 0xc0008000 SBAR, Writel 0x10 SYSTBCR,
      Writel 0 (SMFRAM + 0x3c), Sh7372_cpu_suspend, Cpu_init,
      Readl (SMFRAM + 0x3c) 0x40004000,
      Readl (SMFRAM + 0x3c) 0x40004000,
      Readl (SMFRAM + 0x40) 0x00000c0e,
      Writel 0x00000c0e 0x40004000,
      Flush_tlb_all,
      Readl (SMFRAM + 0x38) 0x10c5387d,
      Set_cr 0x10c5387d,
      Writel 0 SYSTBCR, Writel 0 SBAR] \<and>
   new_events boot (sh7372_enter_core_standby Value_first (sim_env False smfram_after_power_loss) boot) =
     [Writel 0 APARMBAREA, Writel 0xc0008000 SBAR, Writel 0x10 SYSTBCR,
      Writel 0 (SMFRAM + 0x3c), Sh7372_cpu_suspend, Cpu_init,
      Readl (SMFRAM + 0x3c) 0x40004000,
      Readl (SMFRAM + 0x40) 0x00000c0e,
      Readl (SMFRAM + 0x3c) 0x40004000,
      Writel 0x00000c0e 0x40004000,
      Flush_tlb_all,
      Readl (SMFRAM + 0x38) 0x10c5387d,
      Set_cr 0x10c5387d,
      Writel 0 SYSTBCR, Writel 0 SBAR] \<and>
   new_events (boot\<lparr>clock := 1\<rparr>)
       (sh7372_enter_core_standby Address_first (sim_env False smfram_tagged) (boot\<lparr>clock := 1\<rparr>)) =
     [Writel 0 APARMBAREA, Writel 0xc0008000 SBAR, Writel 0x10 SYSTBCR,
      Writel 0 (SMFRAM + 0x3c), Sh7372_cpu_suspend, Cpu_init,
      Readl (SMFRAM + 0x3c) 0x1003c,
      Readl (SMFRAM + 0x3c) 0x2003c,
      Readl (SMFRAM + 0x40) 0x30040,
      Writel 0x30040 0x2003c,
      Flush_tlb_all,
      Readl (SMFRAM + 0x38) 0x40038,
      Set_cr 0x40038,
      Writel 0 SYSTBCR, Writel 0 SBAR] \<and>
   new_events (boot\<lparr>clock := 1\<rparr>)
       (sh7372_enter_core_standby Value_first (sim_env False smfram_tagged) (boot\<lparr>clock := 1\<rparr>)) =
     [Writel 0 APARMBAREA, Writel 0xc0008000 SBAR, Writel 0x10 SYSTBCR,
      Writel 0 (SMFRAM + 0x3c), Sh7372_cpu_suspend, Cpu_init,
      Readl (SMFRAM + 0x3c) 0x1003c,
      Readl (SMFRAM + 0x40) 0x20040,
      Readl (SMFRAM + 0x3c) 0x3003c,
      Writel 0x20040 0x3003c,
      Flush_tlb_all,
      Readl (SMFRAM + 0x38) 0x40038,
      Set_cr 0x40038,
      Writel 0 SYSTBCR, Writel 0 SBAR]"
proof -
  have gated: "readl_val (sim_env False smfram_clock_gated) (clock boot) (SMFRAM + 0x3c) = 0"
    by (simp add: smfram_clock_gated_def)
  have lost: "readl_val (sim_env False smfram_after_power_loss) (clock boot) (SMFRAM + 0x3c) \<noteq> 0"
    by (simp add: smfram_after_power_loss_def)
  have regs: "smfram_after_power_loss n (SMFRAM + 0x3c) = 0x40004000"
    "smfram_after_power_loss n (SMFRAM + 0x40) = 0x00000c0e"
    "smfram_after_power_loss n (SMFRAM + 0x38) = 0x10c5387d" for n
    by (simp_all add: smfram_after_power_loss_def SMFRAM_def)
  have tags: "smfram_tagged 1 (SMFRAM + 0x3c) = 0x1003c"
    "smfram_tagged 2 (SMFRAM + 0x3c) = 0x2003c" "smfram_tagged 3 (SMFRAM + 0x3c) = 0x3003c"
    "smfram_tagged 2 (SMFRAM + 0x40) = 0x20040" "smfram_tagged 3 (SMFRAM + 0x40) = 0x30040"
    "smfram_tagged 4 (SMFRAM + 0x38) = 0x40038"
    "smfram_tagged (Suc 0) (SMFRAM + 0x3c) = 0x1003c"
    "smfram_tagged (Suc (Suc 0)) (SMFRAM + 0x3c) = 0x2003c"
    "smfram_tagged (Suc (Suc (Suc 0))) (SMFRAM + 0x3c) = 0x3003c"
    "smfram_tagged (Suc (Suc 0)) (SMFRAM + 0x40) = 0x20040"
    "smfram_tagged (Suc (Suc (Suc 0))) (SMFRAM + 0x40) = 0x30040"
    by (simp_all add: smfram_tagged_def SMFRAM_def)
  have tagged: "readl_val (sim_env False smfram_tagged) (clock (boot\<lparr>clock := 1\<rparr>)) (SMFRAM + 0x3c) \<noteq> 0"
    by (simp add: smfram_tagged_def SMFRAM_def)
  note recovery = sh7372_enter_core_standby_recovery
  from recovery [of "sim_env False smfram_clock_gated" boot Address_first] gated
  have "new_events boot (sh7372_enter_core_standby Address_first (sim_env False smfram_clock_gated) boot) =
     [Writel 0 APARMBAREA, Writel 0xc0008000 SBAR, Writel 0x10 SYSTBCR,
      Writel 0 (SMFRAM + 0x3c), Sh7372_cpu_suspend, Cpu_init,
      Readl (SMFRAM + 0x3c) 0,
      Writel 0 SYSTBCR, Writel 0 SBAR]"
    by (simp add: sim_env_def)
  moreover
  from recovery [of "sim_env False smfram_after_power_loss" boot Address_first] lost
  have "new_events boot (sh7372_enter_core_standby Address_first (sim_env False smfram_after_power_loss) boot) =
     [Writel 0 APARMBAREA, Writel 0xc0008000 SBAR, Writel 0x10 SYSTBCR,
      Writel 0 (SMFRAM + 0x3c), Sh7372_cpu_suspend, Cpu_init,
      Readl (SMFRAM + 0x3c) 0x40004000,
      Readl (SMFRAM + 0x3c) 0x40004000,
      Readl (SMFRAM + 0x40) 0x00000c0e,
      Writel 0x00000c0e 0x40004000,
      Flush_tlb_all,
      Readl (SMFRAM + 0x38) 0x10c5387d,
      Set_cr 0x10c5387d,
      Writel 0 SYSTBCR, Writel 0 SBAR]"
    by (simp add: sim_env_def regs)
  moreover
  from recovery [of "sim_env False smfram_after_power_loss" boot Value_first] lost
  have "new_events boot (sh7372_enter_core_standby Value_first (sim_env False smfram_after_power_loss) boot) =
     [Writel 0 APARMBAREA, Writel 0xc0008000 SBAR, Writel 0x10 SYSTBCR,
      Writel 0 (SMFRAM + 0x3c), Sh7372_cpu_suspend, Cpu_init,
      Readl (SMFRAM + 0x3c) 0x40004000,
      Readl (SMFRAM + 0x40) 0x00000c0e,
      Readl (SMFRAM + 0x3c) 0x40004000,
      Writel 0x00000c0e 0x40004000,
      Flush_tlb_all,
      Readl (SMFRAM + 0x38) 0x10c5387d,
      Set_cr 0x10c5387d,
      Writel 0 SYSTBCR, Writel 0 SBAR]"
    by (simp add: sim_env_def regs)
  moreover
  from recovery [of "sim_env False smfram_tagged" "boot\<lparr>clock := 1\<rparr>" Address_first] tagged
  have "new_events (boot\<lparr>clock := 1\<rparr>)
       (sh7372_enter_core_standby Address_first (sim_env False smfram_tagged) (boot\<lparr>clock := 1\<rparr>)) =
     [Writel 0 APARMBAREA, Writel 0xc0008000 SBAR, Writel 0x10 SYSTBCR,
      Writel 0 (SMFRAM + 0x3c), Sh7372_cpu_suspend, Cpu_init,
      Readl (SMFRAM + 0x3c) 0x1003c,
      Readl (SMFRAM + 0x3c) 0x2003c,
      Readl (SMFRAM + 0x40) 0x30040,
      Writel 0x30040 0x2003c,
      Flush_tlb_all,
      Readl (SMFRAM + 0x38) 0x40038,
      Set_cr 0x40038,
      Writel 0 SYSTBCR, Writel 0 SBAR]"
    by (simp add: sim_env_def tags)
  moreover
  from recovery [of "sim_env False smfram_tagged" "boot\<lparr>clock := 1\<rparr>" Value_first] tagged
  have "new_events (boot\<lparr>clock := 1\<rparr>)
       (sh7372_enter_core_standby Value_first (sim_env False smfram_tagged) (boot\<lparr>clock := 1\<rparr>)) =
     [Writel 0 APARMBAREA, Writel 0xc0008000 SBAR, Writel 0x10 SYSTBCR,
      Writel 0 (SMFRAM + 0x3c), Sh7372_cpu_suspend, Cpu_init,
      Readl (SMFRAM + 0x3c) 0x1003c,
      Readl (SMFRAM + 0x40) 0x20040,
      Readl (SMFRAM + 0x3c) 0x3003c,
      Writel 0x20040 0x3003c,
      Flush_tlb_all,
      Readl (SMFRAM + 0x38) 0x40038,
      Set_cr 0x40038,
      Writel 0 SYSTBCR, Writel 0 SBAR]"
    by (simp add: sim_env_def tags)
  ultimately show ?thesis by blast
qed

end
